theory Spec2Isabelle
  imports Main "HOL-Library.Word" "HOL-Library.Signed_Division"
begin

text \<open>
  The server side of the action protocol, \<open>rcl_action/action_server.c\<close>: stamp
  conversion, goal acceptance with its duplicate check, cancel-request resolution and the
  expiration sweep, each function translated with its error returns, followed by the
  properties of the specification that these functions decide.
\<close>

section \<open>Machine integers of the action server\<close>

text \<open>
  \<open>int64_t\<close> (\<open>rcl_time_point_value_t\<close>, the duration of the result timeout) is a
  64-bit word read in two's complement; \<open>int32_t\<close> and \<open>uint32_t\<close> are 32-bit words.
  Addition, subtraction and multiplication wrap around. C's \<open>/\<close> and \<open>%\<close> truncate
  towards zero; they are computed on the signed values.
\<close>

type_synonym int64_t = "64 word"
type_synonym int32_t = "32 word"
type_synonym uint32_t = "32 word"
type_synonym uint8_t = "8 word"

definition int64_div :: "int64_t \<Rightarrow> int64_t \<Rightarrow> int64_t" where
  "int64_div a b = word_of_int (sint a sdiv sint b)"

definition int64_rem :: "int64_t \<Rightarrow> int64_t \<Rightarrow> int64_t" where
  "int64_rem a b = word_of_int (sint a smod sint b)"

definition INT64_MAX :: int64_t where
  "INT64_MAX = 9223372036854775807"

text \<open>
  Modelled from the spec: the macro \<open>RCUTILS_S_TO_NS\<close> belongs to rcutils and is not
  part of the source file. The stamp is described as two fields "jointly encoding a
  signed 64-bit nanosecond instant" with \<open>sec * 10^9 + nanosec = t\<close>, so the macro is
  the multiplication by \<open>10^9\<close> in 64-bit arithmetic.
\<close>

definition RCUTILS_S_TO_NS :: "int64_t \<Rightarrow> int64_t" where
  "RCUTILS_S_TO_NS seconds = seconds * 1000000000"

text \<open>
  Modelled from the spec: the macro \<open>RCUTILS_NS_TO_S\<close> belongs to rcutils and is not
  part of the source file. The spec gives \<open>sec = t / 10^9\<close> with truncation towards
  zero, so the macro is the 64-bit signed division by \<open>10^9\<close>.
\<close>

definition RCUTILS_NS_TO_S :: "int64_t \<Rightarrow> int64_t" where
  "RCUTILS_NS_TO_S nanoseconds = int64_div nanoseconds 1000000000"

section \<open>Goal info\<close>

text \<open>
  \<open>rcl_action_goal_info_t\<close>, as the source file uses it: the bytes of the uuid and a
  stamp of \<open>int32_t sec\<close> and \<open>uint32_t nanosec\<close>.
\<close>

record rcl_action_goal_info_t =
  uuid :: "uint8_t list"
  stamp_sec :: int32_t
  stamp_nanosec :: uint32_t

text \<open>
  Modelled from the spec: \<open>UUID_SIZE\<close> is a constant of \<open>rcl_action/types.h\<close>, which
  is not part of the source file. The spec gives the uuid as 16 bytes.
\<close>

definition UUID_SIZE :: nat where
  "UUID_SIZE = 16"

text \<open>
  Modelled from the spec: \<open>uuidcmp\<close> is a macro of \<open>rcl_action/types.h\<close>. Two uuids
  match when their \<open>UUID_SIZE\<close> bytes agree.
\<close>

definition uuidcmp :: "uint8_t list \<Rightarrow> uint8_t list \<Rightarrow> bool" where
  "uuidcmp uuid0 uuid1 = (take UUID_SIZE uuid0 = take UUID_SIZE uuid1)"

text \<open>
  Modelled from the spec: \<open>zerouuid\<close> is a macro of \<open>rcl_action/types.h\<close>, the zero
  uuid that the spec reserves as sentinel.
\<close>

definition zerouuid :: "uint8_t list" where
  "zerouuid = replicate UUID_SIZE 0"

text \<open>
  Modelled from the spec: \<open>uuidcmpzero\<close> is a macro of \<open>rcl_action/types.h\<close>, the
  comparison with the zero uuid.
\<close>

definition uuidcmpzero :: "uint8_t list \<Rightarrow> bool" where
  "uuidcmpzero u = uuidcmp u zerouuid"

text \<open>
  \<open>_goal_info_stamp_to_nanosec\<close>: \<open>sec\<close> is sign-extended to 64 bits, \<open>nanosec\<close> is
  zero-extended by the cast \<open>(int64_t)\<close>.
\<close>

definition goal_info_stamp_to_nanosec :: "rcl_action_goal_info_t \<Rightarrow> int64_t" where
  "goal_info_stamp_to_nanosec goal_info =
     RCUTILS_S_TO_NS (scast (stamp_sec goal_info)) + ucast (stamp_nanosec goal_info)"

text \<open>
  \<open>_nanosec_to_goal_info_stamp\<close>: the quotient is narrowed to \<open>int32_t\<close> by the cast,
  which keeps the low 32 bits; the remainder is stored in the \<open>uint32_t\<close> field, which
  keeps its low 32 bits as well.
\<close>

definition nanosec_to_goal_info_stamp ::
  "int64_t \<Rightarrow> rcl_action_goal_info_t \<Rightarrow> rcl_action_goal_info_t" where
  "nanosec_to_goal_info_stamp nanosec goal_info =
     goal_info\<lparr>stamp_sec := ucast (RCUTILS_NS_TO_S nanosec),
               stamp_nanosec := ucast (int64_rem nanosec (RCUTILS_S_TO_NS 1))\<rparr>"

section \<open>Return codes and undefined behaviour\<close>

datatype rcl_ret_t =
    RCL_RET_OK
  | RCL_RET_ERROR
  | RCL_RET_BAD_ALLOC
  | RCL_RET_INVALID_ARGUMENT
  | RCL_RET_ACTION_SERVER_INVALID
  | RCL_RET_ACTION_GOAL_HANDLE_INVALID
  | RCL_RET_ACTION_GOAL_EVENT_INVALID

text \<open>
  An array access outside the allocated block has no defined result in C. The model
  stops there with \<open>Inl OutOfBounds\<close>; every function that indexes the goal handle
  array returns \<open>undefined_behaviour + result\<close>.
\<close>

datatype undefined_behaviour = OutOfBounds

definition slot :: "'a list \<Rightarrow> nat \<Rightarrow> undefined_behaviour + 'a" where
  "slot arr i = (if i < length arr then Inr (arr ! i) else Inl OutOfBounds)"

section \<open>Goal handles\<close>

text \<open>
  Modelled from the spec: the goal handle (\<open>goal_handle.c\<close>) and its state machine are
  not part of the source file. The spec lists what the server uses: \<open>init(info,
  allocator)\<close>, \<open>dispose\<close>, \<open>info()\<close>, \<open>is_active()\<close>, \<open>is_cancelable()\<close> and
  \<open>transition(event)\<close>; the info is immutable after creation, and \<open>is_active\<close> and
  \<open>is_cancelable\<close> are functions of the handle's current state. A handle is therefore
  its info together with what its state reports. A pointer to a handle without
  implementation (zero-initialised or finalised) and a \<open>NULL\<close> pointer are both \<open>None\<close>:
  \<open>info()\<close> fails on them and they are neither active nor cancelable. A freshly
  initialised handle is active and cancelable (an accepted goal).
\<close>

record rcl_action_goal_handle_impl_t =
  info :: rcl_action_goal_info_t
  active :: bool
  cancelable :: bool

type_synonym rcl_action_goal_handle_t = "rcl_action_goal_handle_impl_t option"

text \<open>
  Modelled from the spec: \<open>info()\<close> of the goal handle. It yields the info the handle
  was created with and fails on a handle without implementation.
\<close>

definition rcl_action_goal_handle_get_info ::
  "rcl_action_goal_handle_t \<Rightarrow> rcl_ret_t + rcl_action_goal_info_t" where
  "rcl_action_goal_handle_get_info goal_handle =
     (case goal_handle of
        None \<Rightarrow> Inl RCL_RET_ACTION_GOAL_HANDLE_INVALID
      | Some impl \<Rightarrow> Inr (info impl))"

text \<open>
  Modelled from the spec: \<open>is_active()\<close> of the goal handle, what its current state
  reports; a goal that is not active has terminated.
\<close>

definition rcl_action_goal_handle_is_active :: "rcl_action_goal_handle_t \<Rightarrow> bool" where
  "rcl_action_goal_handle_is_active goal_handle =
     (case goal_handle of None \<Rightarrow> False | Some impl \<Rightarrow> active impl)"

text \<open>
  Modelled from the spec: \<open>is_cancelable()\<close> of the goal handle, what its current state
  reports.
\<close>

definition rcl_action_goal_handle_is_cancelable :: "rcl_action_goal_handle_t \<Rightarrow> bool" where
  "rcl_action_goal_handle_is_cancelable goal_handle =
     (case goal_handle of None \<Rightarrow> False | Some impl \<Rightarrow> cancelable impl)"

text \<open>
  Modelled from the spec: \<open>init(info, allocator)\<close> of the goal handle. It allocates the
  implementation, which can fail, and stores the info it is given; the new goal is
  active and cancelable.
\<close>

definition rcl_action_goal_handle_init ::
  "bool \<Rightarrow> rcl_action_goal_info_t \<Rightarrow> rcl_ret_t \<times> rcl_action_goal_handle_t" where
  "rcl_action_goal_handle_init alloc_ok goal_info =
     (if alloc_ok
      then (RCL_RET_OK, Some \<lparr>info = goal_info, active = True, cancelable = True\<rparr>)
      else (RCL_RET_BAD_ALLOC, None))"

text \<open>
  Modelled from the spec: \<open>dispose()\<close> of the goal handle. It releases the
  implementation and fails on a handle that has none.
\<close>

definition rcl_action_goal_handle_fini ::
  "rcl_action_goal_handle_t \<Rightarrow> rcl_ret_t \<times> rcl_action_goal_handle_t" where
  "rcl_action_goal_handle_fini goal_handle =
     (case goal_handle of
        None \<Rightarrow> (RCL_RET_ACTION_GOAL_HANDLE_INVALID, None)
      | Some impl \<Rightarrow> (RCL_RET_OK, None))"

section \<open>Server state\<close>

text \<open>
  \<open>rcl_action_server_impl_t\<close>. The three services and two publishers are kept as what
  \<open>rcl_service_is_valid\<close> and \<open>rcl_publisher_is_valid\<close> report for them;
  \<open>result_timeout\<close> is \<open>options.result_timeout.nanoseconds\<close>. \<open>goal_handles\<close> is the
  content of the allocated block of handle pointers, one list element per slot, and
  \<open>num_goal_handles\<close> the stored count. \<open>None\<close> is a server whose \<open>impl\<close> is \<open>NULL\<close>.
\<close>

record rcl_action_server_impl_t =
  goal_service_valid :: bool
  cancel_service_valid :: bool
  result_service_valid :: bool
  feedback_publisher_valid :: bool
  status_publisher_valid :: bool
  result_timeout :: int64_t
  goal_handles :: "rcl_action_goal_handle_t list"
  num_goal_handles :: nat

type_synonym rcl_action_server_t = "rcl_action_server_impl_t option"

text \<open>
  \<open>rcl_action_server_is_valid\<close>: \<open>Inr impl\<close> is \<open>true\<close>, with the implementation the
  caller goes on to use; \<open>Inl msg\<close> is \<open>false\<close> with the error message that was set.
\<close>

definition rcl_action_server_is_valid ::
  "rcl_action_server_t \<Rightarrow> string + rcl_action_server_impl_t" where
  "rcl_action_server_is_valid action_server =
     (case action_server of
        None \<Rightarrow> Inl ''action server implementation is invalid''
      | Some impl \<Rightarrow>
          if \<not> goal_service_valid impl then Inl ''goal service is invalid''
          else if \<not> cancel_service_valid impl then Inl ''cancel service is invalid''
          else if \<not> result_service_valid impl then Inl ''result service is invalid''
          else if \<not> feedback_publisher_valid impl then Inl ''feedback publisher is invalid''
          else if \<not> status_publisher_valid impl then Inl ''status publisher is invalid''
          else Inr impl)"

text \<open>
  The allocator's \<open>reallocate\<close> on the block of handle pointers, with the new size in
  bytes: the slots that fit are kept, a slot that is new holds no handle yet. Pointers
  are 8 bytes wide.
\<close>

definition sizeof_goal_handle_ptr :: nat where
  "sizeof_goal_handle_ptr = 8"

definition reallocate ::
  "rcl_action_goal_handle_t list \<Rightarrow> nat \<Rightarrow> rcl_action_goal_handle_t list" where
  "reallocate arr nbytes =
     (let n = nbytes div sizeof_goal_handle_ptr
      in take n arr @ replicate (n - length arr) None)"

section \<open>rcl_action_server_goal_exists\<close>

function goal_exists_loop ::
  "rcl_action_goal_handle_t list \<Rightarrow> nat \<Rightarrow> rcl_action_goal_info_t \<Rightarrow> nat
     \<Rightarrow> undefined_behaviour + bool" where
  "goal_exists_loop arr num goal_info i =
     (if i < num then
        (case slot arr i of
           Inl ub \<Rightarrow> Inl ub
         | Inr goal_handle \<Rightarrow>
             (case rcl_action_goal_handle_get_info goal_handle of
                Inl ret \<Rightarrow> Inr False
              | Inr gh_goal_info \<Rightarrow>
                  if uuidcmp (uuid gh_goal_info) (uuid goal_info) then Inr True
                  else goal_exists_loop arr num goal_info (i + 1)))
      else Inr False)"
  by pat_completeness auto
termination
  by (relation "measure (\<lambda>(arr, num, goal_info, i). num - i)") auto

declare goal_exists_loop.simps [simp del]

definition rcl_action_server_goal_exists ::
  "rcl_action_server_t \<Rightarrow> rcl_action_goal_info_t option \<Rightarrow> undefined_behaviour + bool" where
  "rcl_action_server_goal_exists action_server goal_info =
     (case rcl_action_server_is_valid action_server of
        Inl msg \<Rightarrow> Inr False
      | Inr impl \<Rightarrow>
          (case goal_info of
             None \<Rightarrow> Inr False
           | Some gi \<Rightarrow> goal_exists_loop (goal_handles impl) (num_goal_handles impl) gi 0))"

section \<open>rcl_action_accept_new_goal\<close>

text \<open>
  What the allocator's \<open>reallocate\<close> does with the block of handle pointers: it fails
  and leaves the block alone, or it resizes the block where it is, or it moves the
  content to a new block and releases the old one.
\<close>

datatype reallocation = Reallocate_Fails | Reallocate_In_Place | Reallocate_Moves

text \<open>
  What the call gets from its collaborators: what \<open>reallocate\<close> does, whether
  \<open>allocate\<close> succeeds, what \<open>rcl_clock_get_now\<close> yields (the reading, or the error
  message it set), and whether the allocation inside \<open>rcl_action_goal_handle_init\<close>
  succeeds.
\<close>

record accept_env =
  table_reallocate :: reallocation
  allocate_ok :: bool
  clock_get_now :: "string + int64_t"
  goal_handle_init_ok :: bool

text \<open>
  The function stores the reallocated block in \<open>impl->goal_handles\<close> only on its last
  lines. When it returns early after the reallocation, the server still holds the old
  pointer: it sees the resized block when the block stayed in place, and a released
  block, with no slot left to read, when the content was moved. \<open>handles\<close> is the
  content of the new block at the time of the return.
\<close>

definition abandoned_block ::
  "reallocation \<Rightarrow> rcl_action_goal_handle_t list \<Rightarrow> rcl_action_goal_handle_t list" where
  "abandoned_block r handles =
     (case r of
        Reallocate_Fails \<Rightarrow> handles
      | Reallocate_In_Place \<Rightarrow> handles
      | Reallocate_Moves \<Rightarrow> [])"

text \<open>
  The result is the returned handle (\<open>Inr\<close>) or \<open>NULL\<close> with the error message that
  was set (\<open>Inl\<close>), and the server afterwards. A failure before the reallocation
  leaves the server as it was. After the reallocation the new slot holds the pointer to
  the freshly allocated handle, which has no implementation until
  \<open>rcl_action_goal_handle_init\<close> succeeds; a failure there returns \<open>NULL\<close> with the
  count unchanged and the block as the old pointer sees it.
\<close>

definition rcl_action_accept_new_goal ::
  "accept_env \<Rightarrow> rcl_action_server_t \<Rightarrow> rcl_action_goal_info_t option
     \<Rightarrow> undefined_behaviour + ((string + rcl_action_goal_handle_t) \<times> rcl_action_server_t)" where
  "rcl_action_accept_new_goal env action_server goal_info =
     (case rcl_action_server_is_valid action_server of
        Inl msg \<Rightarrow> Inr (Inl msg, action_server)
      | Inr impl \<Rightarrow>
          (case goal_info of
             None \<Rightarrow> Inr (Inl ''goal_info argument is null'', action_server)
           | Some gi \<Rightarrow>
               (case rcl_action_server_goal_exists action_server goal_info of
                  Inl ub \<Rightarrow> Inl ub
                | Inr exists \<Rightarrow>
                    if exists then Inr (Inl ''goal ID already exists'', action_server)
                    else
                      let num = num_goal_handles impl;
                          new_num_goal_handles = num + 1
                      in
                      if table_reallocate env = Reallocate_Fails
                      then Inr (Inl ''memory allocation failed for goal handle pointer'',
                                action_server)
                      else
                        let handles = reallocate (goal_handles impl)
                                        (new_num_goal_handles * sizeof_goal_handle_ptr)
                        in
                        if \<not> allocate_ok env
                        then Inr (Inl ''memory allocation failed for new goal handle'',
                                  Some (impl\<lparr>goal_handles :=
                                               abandoned_block (table_reallocate env)
                                                 handles\<rparr>))
                        else
                          (case clock_get_now env of
                             Inl msg \<Rightarrow>
                               Inr (Inl msg,
                                    Some (impl\<lparr>goal_handles :=
                                                 abandoned_block (table_reallocate env)
                                                   (handles[num := None])\<rparr>))
                           | Inr now_time_point \<Rightarrow>
                               let goal_info_stamp_now =
                                     nanosec_to_goal_info_stamp now_time_point gi;
                                   (ret, goal_handle) =
                                     rcl_action_goal_handle_init (goal_handle_init_ok env)
                                       goal_info_stamp_now
                               in
                               if ret \<noteq> RCL_RET_OK
                               then Inr (Inl ''failed to initialize goal handle'',
                                         Some (impl\<lparr>goal_handles :=
                                                      abandoned_block (table_reallocate env)
                                                        (handles[num := None])\<rparr>))
                               else Inr (Inr goal_handle,
                                         Some (impl\<lparr>goal_handles := handles[num := goal_handle],
                                                    num_goal_handles :=
                                                      new_num_goal_handles\<rparr>))))))"

section \<open>rcl_action_clear_expired_goals\<close>

text \<open>
  The \<open>for\<close> loop of the sweep, in the release build (the \<open>assert\<close> is compiled out).
  \<open>num\<close> is the local \<open>num_goal_handles\<close>, \<open>i\<close> the scan index. When a goal has
  expired its handle is finalised, slot \<open>i\<close> receives the content of slot \<open>num\<close>,
  slot \<open>num\<close> is set to \<open>NULL\<close>, \<open>num\<close> is decremented and the counter incremented;
  the \<open>++i\<close> of the loop header runs on every path.
\<close>

function clear_expired_loop ::
  "int64_t \<Rightarrow> int64_t \<Rightarrow> rcl_action_goal_handle_t list \<Rightarrow> nat \<Rightarrow> nat \<Rightarrow> nat \<Rightarrow> rcl_ret_t
     \<Rightarrow> undefined_behaviour + (rcl_action_goal_handle_t list \<times> nat \<times> nat \<times> rcl_ret_t)" where
  "clear_expired_loop current_time timeout arr num i num_expired ret_final =
     (if i < num then
        (case slot arr i of
           Inl ub \<Rightarrow> Inl ub
         | Inr goal_handle \<Rightarrow>
             if rcl_action_goal_handle_is_active goal_handle
             then clear_expired_loop current_time timeout arr num (i + 1) num_expired ret_final
             else
               (case rcl_action_goal_handle_get_info goal_handle of
                  Inl ret \<Rightarrow>
                    clear_expired_loop current_time timeout arr num (i + 1) num_expired
                      RCL_RET_ERROR
                | Inr goal_info \<Rightarrow>
                    if timeout <s current_time - goal_info_stamp_to_nanosec goal_info
                    then
                      (case slot arr num of
                         Inl ub \<Rightarrow> Inl ub
                       | Inr past_last \<Rightarrow>
                           clear_expired_loop current_time timeout
                             (arr[i := past_last, num := None]) (num - 1) (i + 1)
                             (num_expired + 1)
                             (if fst (rcl_action_goal_handle_fini goal_handle) \<noteq> RCL_RET_OK
                              then RCL_RET_ERROR else ret_final))
                    else
                      clear_expired_loop current_time timeout arr num (i + 1) num_expired
                        ret_final))
      else Inr (arr, num, num_expired, ret_final))"
  by pat_completeness auto
termination
  by (relation "measure (\<lambda>(current_time, timeout, arr, num, i, num_expired, ret_final). num - i)")
     auto

declare clear_expired_loop.simps [simp del]

text \<open>
  The whole call. \<open>clock_now\<close> is what \<open>rcl_clock_get_now\<close> yields, \<open>shrink_ok\<close>
  whether the shrinking \<open>reallocate\<close> succeeds, \<open>num_expired\<close> the out-parameter
  (\<open>None\<close> for a \<open>NULL\<close> pointer, else the value it holds). The result is the return
  code, the out-parameter and the server afterwards. After the loop the block is
  released when the local count is zero, with the server's fields left as they are (the
  released block has no slot left to read); otherwise it is reallocated to
  \<open>num_goal_handles\<close> bytes.
\<close>

definition rcl_action_clear_expired_goals ::
  "(string + int64_t) \<Rightarrow> bool \<Rightarrow> rcl_action_server_t \<Rightarrow> nat option
     \<Rightarrow> undefined_behaviour + (rcl_ret_t \<times> nat option \<times> rcl_action_server_t)" where
  "rcl_action_clear_expired_goals clock_now shrink_ok action_server num_expired =
     (case rcl_action_server_is_valid action_server of
        Inl msg \<Rightarrow> Inr (RCL_RET_ACTION_SERVER_INVALID, num_expired, action_server)
      | Inr impl \<Rightarrow>
          (case num_expired of
             None \<Rightarrow> Inr (RCL_RET_INVALID_ARGUMENT, None, action_server)
           | Some old_count \<Rightarrow>
               (case clock_now of
                  Inl msg \<Rightarrow> Inr (RCL_RET_ERROR, num_expired, action_server)
                | Inr current_time \<Rightarrow>
                    (case clear_expired_loop current_time (result_timeout impl)
                            (goal_handles impl) (num_goal_handles impl) 0 0 RCL_RET_OK of
                       Inl ub \<Rightarrow> Inl ub
                     | Inr (arr, num, expired, ret_final) \<Rightarrow>
                         if 0 < expired then
                           (if num = 0
                            then Inr (ret_final, Some expired,
                                      Some (impl\<lparr>goal_handles := []\<rparr>))
                            else if \<not> shrink_ok
                            then Inr (RCL_RET_ERROR, Some expired,
                                      Some (impl\<lparr>goal_handles := arr\<rparr>))
                            else Inr (ret_final, Some expired,
                                      Some (impl\<lparr>goal_handles := reallocate arr num,
                                                 num_goal_handles := num\<rparr>)))
                         else Inr (ret_final, Some expired,
                                   Some (impl\<lparr>goal_handles := arr\<rparr>))))))"

section \<open>rcl_action_process_cancel_request\<close>

text \<open>
  The first loop: the request uuid is not zero and the request stamp is zero. The scan
  stops at the first handle whose uuid matches. \<open>to_cancel\<close> is the filled part of
  \<open>goal_handles_to_cancel\<close>; it has room for every goal of the table.
\<close>

function cancel_one_goal_loop ::
  "rcl_action_goal_handle_t list \<Rightarrow> nat \<Rightarrow> uint8_t list \<Rightarrow> nat
     \<Rightarrow> rcl_action_goal_handle_t list \<Rightarrow> rcl_ret_t
     \<Rightarrow> undefined_behaviour + (rcl_ret_t \<times> rcl_action_goal_handle_t list)" where
  "cancel_one_goal_loop arr total_num_goals request_uuid i to_cancel ret_final =
     (if i < total_num_goals then
        (case slot arr i of
           Inl ub \<Rightarrow> Inl ub
         | Inr goal_handle \<Rightarrow>
             (case rcl_action_goal_handle_get_info goal_handle of
                Inl ret \<Rightarrow>
                  cancel_one_goal_loop arr total_num_goals request_uuid (i + 1) to_cancel
                    RCL_RET_ERROR
              | Inr goal_info \<Rightarrow>
                  if uuidcmp request_uuid (uuid goal_info) then
                    (if rcl_action_goal_handle_is_cancelable goal_handle
                     then Inr (ret_final, to_cancel @ [goal_handle])
                     else Inr (ret_final, to_cancel))
                  else
                    cancel_one_goal_loop arr total_num_goals request_uuid (i + 1) to_cancel
                      ret_final))
      else Inr (ret_final, to_cancel))"
  by pat_completeness auto
termination
  by (relation "measure (\<lambda>(arr, total_num_goals, request_uuid, i, to_cancel, ret_final).
                  total_num_goals - i)") auto

declare cancel_one_goal_loop.simps [simp del]

text \<open>
  The second loop: every cancelable goal stamped at or before \<open>request_nanosec\<close>, and
  any cancelable goal whose uuid matches. Both stamps are \<open>int64_t\<close>, so \<open>\<le>\<close> is the
  signed comparison.
\<close>

function cancel_goals_loop ::
  "rcl_action_goal_handle_t list \<Rightarrow> nat \<Rightarrow> uint8_t list \<Rightarrow> int64_t \<Rightarrow> nat
     \<Rightarrow> rcl_action_goal_handle_t list \<Rightarrow> rcl_ret_t
     \<Rightarrow> undefined_behaviour + (rcl_ret_t \<times> rcl_action_goal_handle_t list)" where
  "cancel_goals_loop arr total_num_goals request_uuid request_nanosec i to_cancel ret_final =
     (if i < total_num_goals then
        (case slot arr i of
           Inl ub \<Rightarrow> Inl ub
         | Inr goal_handle \<Rightarrow>
             (case rcl_action_goal_handle_get_info goal_handle of
                Inl ret \<Rightarrow>
                  cancel_goals_loop arr total_num_goals request_uuid request_nanosec (i + 1)
                    to_cancel RCL_RET_ERROR
              | Inr goal_info \<Rightarrow>
                  if rcl_action_goal_handle_is_cancelable goal_handle \<and>
                     (goal_info_stamp_to_nanosec goal_info \<le>s request_nanosec \<or>
                      uuidcmp request_uuid (uuid goal_info))
                  then
                    cancel_goals_loop arr total_num_goals request_uuid request_nanosec (i + 1)
                      (to_cancel @ [goal_handle]) ret_final
                  else
                    cancel_goals_loop arr total_num_goals request_uuid request_nanosec (i + 1)
                      to_cancel ret_final))
      else Inr (ret_final, to_cancel))"
  by pat_completeness auto
termination
  by (relation "measure (\<lambda>(arr, total_num_goals, request_uuid, request_nanosec, i, to_cancel,
                  ret_final). total_num_goals - i)") auto

declare cancel_goals_loop.simps [simp del]

text \<open>
  "Determine how many goals should transition to canceling": the part of the function
  from the request data to the end of the two loops. It yields \<open>ret_final\<close> and the
  handles gathered in \<open>goal_handles_to_cancel\<close>.
\<close>

definition goal_handles_to_cancel ::
  "rcl_action_server_impl_t \<Rightarrow> rcl_action_goal_info_t
     \<Rightarrow> undefined_behaviour + (rcl_ret_t \<times> rcl_action_goal_handle_t list)" where
  "goal_handles_to_cancel impl request_goal_info =
     (let total_num_goals = num_goal_handles impl;
          request_uuid = uuid request_goal_info;
          request_nanosec = goal_info_stamp_to_nanosec request_goal_info
      in
      if \<not> uuidcmpzero request_uuid \<and> request_nanosec = 0
      then cancel_one_goal_loop (goal_handles impl) total_num_goals request_uuid 0 []
             RCL_RET_OK
      else
        cancel_goals_loop (goal_handles impl) total_num_goals request_uuid
          (if uuidcmpzero request_uuid \<and> request_nanosec = 0 then INT64_MAX
           else request_nanosec)
          0 [] RCL_RET_OK)"

text \<open>
  What the call gets from its collaborators: whether the temporary array can be
  allocated, what \<open>rcl_action_cancel_response_init\<close> returns for a given size, and
  \<open>rcl_action_update_goal_state\<close> with the cancel event, which returns a code and the
  handle after the transition.
\<close>

record cancel_env =
  temporary_allocate_ok :: bool
  cancel_response_init :: "nat \<Rightarrow> rcl_ret_t"
  update_goal_state_cancel :: "rcl_action_goal_handle_t \<Rightarrow> rcl_ret_t \<times> rcl_action_goal_handle_t"

text \<open>
  The last loop: each gathered handle is moved to canceling and, when that succeeded,
  its info is written to entry \<open>i\<close> of the response. It yields \<open>ret_final\<close>, the
  response entries and the handles after their transition.
\<close>

fun transition_loop ::
  "(rcl_action_goal_handle_t \<Rightarrow> rcl_ret_t \<times> rcl_action_goal_handle_t)
     \<Rightarrow> rcl_action_goal_handle_t list \<Rightarrow> nat \<Rightarrow> rcl_action_goal_info_t option list \<Rightarrow> rcl_ret_t
     \<Rightarrow> rcl_ret_t \<times> rcl_action_goal_info_t option list \<times> rcl_action_goal_handle_t list" where
  "transition_loop update [] i entries ret_final = (ret_final, entries, [])"
| "transition_loop update (goal_handle # rest) i entries ret_final =
     (let (ret, goal_handle') = update goal_handle;
          got = (if ret = RCL_RET_OK
                 then rcl_action_goal_handle_get_info goal_handle' else Inl ret);
          entries' = (case got of Inl r \<Rightarrow> entries | Inr gi \<Rightarrow> entries[i := Some gi]);
          ret_final' = (case got of Inl r \<Rightarrow> RCL_RET_ERROR | Inr gi \<Rightarrow> ret_final);
          (r, es, hs) = transition_loop update rest (i + 1) entries' ret_final'
      in (r, es, goal_handle' # hs))"

text \<open>
  The whole call. The request and the response are \<open>None\<close> for a \<open>NULL\<close> pointer; the
  response is the content of \<open>goals_canceling\<close>, an entry being \<open>None\<close> until an info
  is written to it. The result is the return code, the response and the handles that
  went through the transition. When the response cannot be initialised, \<open>ret_final\<close> is
  set to \<open>RCL_RET_BAD_ALLOC\<close> for that code and then to \<open>RCL_RET_ERROR\<close> in every case.
\<close>

definition rcl_action_process_cancel_request ::
  "cancel_env \<Rightarrow> rcl_action_server_t \<Rightarrow> rcl_action_goal_info_t option
     \<Rightarrow> rcl_action_goal_info_t option list option
     \<Rightarrow> undefined_behaviour +
        (rcl_ret_t \<times> rcl_action_goal_info_t option list option \<times> rcl_action_goal_handle_t list)" where
  "rcl_action_process_cancel_request env action_server cancel_request cancel_response =
     (case rcl_action_server_is_valid action_server of
        Inl msg \<Rightarrow> Inr (RCL_RET_ACTION_SERVER_INVALID, cancel_response, [])
      | Inr impl \<Rightarrow>
          (case cancel_request of
             None \<Rightarrow> Inr (RCL_RET_INVALID_ARGUMENT, cancel_response, [])
           | Some request_goal_info \<Rightarrow>
               (case cancel_response of
                  None \<Rightarrow> Inr (RCL_RET_INVALID_ARGUMENT, cancel_response, [])
                | Some old_response \<Rightarrow>
                    if \<not> temporary_allocate_ok env
                    then Inr (RCL_RET_BAD_ALLOC, cancel_response, [])
                    else
                      (case goal_handles_to_cancel impl request_goal_info of
                         Inl ub \<Rightarrow> Inl ub
                       | Inr (ret_final, to_cancel) \<Rightarrow>
                           if length to_cancel = 0
                           then Inr (ret_final, Some [], [])
                           else
                             let ret = cancel_response_init env (length to_cancel) in
                             if ret \<noteq> RCL_RET_OK then
                               (let ret_final1 = (if ret = RCL_RET_BAD_ALLOC
                                                  then RCL_RET_BAD_ALLOC else ret_final);
                                    ret_final2 = RCL_RET_ERROR
                                in Inr (ret_final2, cancel_response, []))
                             else
                               (let (r, entries, handles) =
                                      transition_loop (update_goal_state_cancel env) to_cancel 0
                                        (replicate (length to_cancel) None) ret_final
                                in Inr (r, Some entries, handles))))))"

section \<open>Notions used to state the properties\<close>

text \<open>
  What a handle of the table reports, as the loops read it: whether its uuid matches a
  request uuid, whether its stamp is at or before a request stamp (signed), and whether
  the sweep finds it expired (not active, info available, and
  \<open>current_time - goal_time > timeout\<close>).
\<close>

definition handle_uuid_matches :: "uint8_t list \<Rightarrow> rcl_action_goal_handle_t \<Rightarrow> bool" where
  "handle_uuid_matches request_uuid goal_handle =
     (case rcl_action_goal_handle_get_info goal_handle of
        Inl ret \<Rightarrow> False
      | Inr goal_info \<Rightarrow> uuidcmp request_uuid (uuid goal_info))"

definition handle_stamp_le :: "int64_t \<Rightarrow> rcl_action_goal_handle_t \<Rightarrow> bool" where
  "handle_stamp_le request_nanosec goal_handle =
     (case rcl_action_goal_handle_get_info goal_handle of
        Inl ret \<Rightarrow> False
      | Inr goal_info \<Rightarrow> goal_info_stamp_to_nanosec goal_info \<le>s request_nanosec)"

definition goal_expired :: "int64_t \<Rightarrow> int64_t \<Rightarrow> rcl_action_goal_handle_t \<Rightarrow> bool" where
  "goal_expired current_time timeout goal_handle =
     (\<not> rcl_action_goal_handle_is_active goal_handle \<and>
      (case rcl_action_goal_handle_get_info goal_handle of
         Inl ret \<Rightarrow> False
       | Inr goal_info \<Rightarrow> timeout <s current_time - goal_info_stamp_to_nanosec goal_info))"

text \<open>
  What the two cancel loops gather from a list of handles: the second loop keeps every
  cancelable handle that is stamped at or before the request stamp or carries the request
  uuid; the first loop looks at the first handle that carries the request uuid and keeps
  it when it is cancelable.
\<close>

definition cancel_selects ::
  "uint8_t list \<Rightarrow> int64_t \<Rightarrow> rcl_action_goal_handle_t \<Rightarrow> bool" where
  "cancel_selects request_uuid request_nanosec goal_handle =
     (rcl_action_goal_handle_is_cancelable goal_handle \<and>
      (handle_stamp_le request_nanosec goal_handle \<or>
       handle_uuid_matches request_uuid goal_handle))"

definition first_uuid_match ::
  "uint8_t list \<Rightarrow> rcl_action_goal_handle_t list \<Rightarrow> rcl_action_goal_handle_t list" where
  "first_uuid_match request_uuid handles =
     (case find (handle_uuid_matches request_uuid) handles of
        None \<Rightarrow> []
      | Some goal_handle \<Rightarrow>
          if rcl_action_goal_handle_is_cancelable goal_handle then [goal_handle] else [])"

text \<open>
  Concrete states for the examples: a handle whose uuid is sixteen times the byte \<open>b\<close>,
  and an initialised server (every endpoint valid) that tracks the given handles.
\<close>

definition goal_handle_of ::
  "uint8_t \<Rightarrow> int32_t \<Rightarrow> uint32_t \<Rightarrow> bool \<Rightarrow> bool \<Rightarrow> rcl_action_goal_handle_t" where
  "goal_handle_of b sec nanosec is_active is_cancelable =
     Some \<lparr>info = \<lparr>uuid = replicate 16 b, stamp_sec = sec, stamp_nanosec = nanosec\<rparr>,
           active = is_active, cancelable = is_cancelable\<rparr>"

definition server_impl_of ::
  "int64_t \<Rightarrow> rcl_action_goal_handle_t list \<Rightarrow> rcl_action_server_impl_t" where
  "server_impl_of timeout handles =
     \<lparr>goal_service_valid = True, cancel_service_valid = True, result_service_valid = True,
      feedback_publisher_valid = True, status_publisher_valid = True,
      result_timeout = timeout, goal_handles = handles, num_goal_handles = length handles\<rparr>"

section \<open>Array access and uuid comparison\<close>

lemma slot_in_range: "i < length arr \<Longrightarrow> slot arr i = Inr (arr ! i)"
  by (simp add: slot_def)

lemma drop_take_step:
  assumes "i < num" "num \<le> length arr"
  shows "drop i (take num arr) = arr ! i # drop (i + 1) (take num arr)"
proof -
  have "i < length (take num arr)" using assms by simp
  then have "drop i (take num arr) = take num arr ! i # drop (Suc i) (take num arr)"
    by (rule Cons_nth_drop_Suc[symmetric])
  then show ?thesis using assms by simp
qed

lemma uuidcmp_sym: "uuidcmp a b = uuidcmp b a"
  by (auto simp: uuidcmp_def)

lemma valid_server_Some:
  "rcl_action_server_is_valid action_server = Inr impl \<Longrightarrow> action_server = Some impl"
  by (auto simp: rcl_action_server_is_valid_def split: option.splits if_splits)

lemma valid_after_update:
  "rcl_action_server_is_valid (Some impl) = Inr impl \<Longrightarrow>
   rcl_action_server_is_valid (Some (impl\<lparr>goal_handles := hs, num_goal_handles := n\<rparr>)) =
     Inr (impl\<lparr>goal_handles := hs, num_goal_handles := n\<rparr>)"
  by (auto simp: rcl_action_server_is_valid_def split: if_splits)

lemma server_impl_of_valid:
  "rcl_action_server_is_valid (Some (server_impl_of timeout handles)) =
     Inr (server_impl_of timeout handles)"
  by (simp add: rcl_action_server_is_valid_def server_impl_of_def)

section \<open>Stamp conversion\<close>

lemma sdiv_nonneg: "0 \<le> (k::int) \<Longrightarrow> 0 < l \<Longrightarrow> k sdiv l = k div l"
  by (cases "k = 0") (simp_all add: signed_divide_int_def)

lemma smod_nonneg: "0 \<le> (k::int) \<Longrightarrow> 0 < l \<Longrightarrow> k smod l = k mod l"
  by (cases "k = 0") (simp_all add: signed_modulo_int_def)

lemma narrow_of_int_small:
  fixes q :: int
  assumes "0 \<le> q" "q < 2 ^ 32"
  shows "(ucast (word_of_int q :: 64 word) :: 32 word) = word_of_int q"
proof -
  have "q < 2 ^ 64" using assms(2) by simp
  then have "uint (word_of_int q :: 64 word) = q" using assms(1)
    by (simp add: uint_word_of_int_eq take_bit_int_eq_self)
  then show ?thesis by (simp add: ucast_eq)
qed

lemma sign_extend_of_int_small:
  fixes q :: int
  assumes "- (2 ^ 31) \<le> q" "q < 2 ^ 31"
  shows "(scast (word_of_int q :: 32 word) :: 64 word) = word_of_int q"
proof -
  have "sint (word_of_int q :: 32 word) = q" using assms
    by (simp add: signed_of_int signed_take_bit_int_eq_self)
  then show ?thesis by (simp add: scast_eq)
qed

lemma zero_extend_of_int_small:
  fixes q :: int
  assumes "0 \<le> q" "q < 2 ^ 32"
  shows "(ucast (word_of_int q :: 32 word) :: 64 word) = word_of_int q"
proof -
  have "uint (word_of_int q :: 32 word) = q" using assms
    by (simp add: uint_word_of_int_eq take_bit_int_eq_self)
  then show ?thesis by (simp add: ucast_eq)
qed

lemma stamp_round_trip_below_2038:
  fixes t :: int64_t
  assumes "0 \<le>s t" "t <s 2147483648000000000"
  shows "goal_info_stamp_to_nanosec (nanosec_to_goal_info_stamp t gi) = t"
proof -
  define k where "k = sint t"
  have k0: "0 \<le> k" using assms(1) by (simp add: k_def word_sle_eq)
  have k1: "k < 2147483648000000000" using assms(2) by (simp add: k_def word_sless_alt)
  define q where "q = k div 1000000000"
  define r where "r = k mod 1000000000"
  have q0: "0 \<le> q" "q < 2 ^ 31" using k0 k1 by (simp_all add: q_def)
  have r0: "0 \<le> r" "r < 2 ^ 32"
  proof -
    show "0 \<le> r" by (simp add: r_def)
    have "r < 1000000000" by (simp add: r_def)
    then show "r < 2 ^ 32" by simp
  qed
  have kqr: "k = q * 1000000000 + r" by (simp add: q_def r_def)
  have quot: "RCUTILS_NS_TO_S t = word_of_int q"
    using k0 by (simp add: RCUTILS_NS_TO_S_def int64_div_def k_def[symmetric] q_def sdiv_nonneg)
  have rem: "int64_rem t 1000000000 = word_of_int r"
    using k0 by (simp add: int64_rem_def k_def[symmetric] r_def smod_nonneg)
  have "goal_info_stamp_to_nanosec (nanosec_to_goal_info_stamp t gi) =
        word_of_int q * 1000000000 + word_of_int r"
    using q0 r0
    by (simp add: goal_info_stamp_to_nanosec_def nanosec_to_goal_info_stamp_def quot rem
        narrow_of_int_small sign_extend_of_int_small zero_extend_of_int_small
        RCUTILS_S_TO_NS_def)
  also have "\<dots> = word_of_int k" by (simp add: kqr)
  also have "\<dots> = t" by (simp add: k_def)
  finally show ?thesis .
qed

text \<open>
  C7, as stated: for every nanosecond value \<open>t \<ge> 0\<close>, splitting \<open>t\<close> into
  \<open>(sec, nanosec)\<close> and reassembling gives \<open>t\<close> back. The \<open>sec\<close> field is an
  \<open>int32_t\<close>: at \<open>t = 2^31 * 10^9\<close> nanoseconds the quotient \<open>2^31\<close> no longer fits,
  the cast keeps its low 32 bits, and the reassembled value is \<open>- 2^31 * 10^9\<close>.
\<close>

theorem C7_round_trip_counterexample:
  "0 \<le>s (2147483648000000000 :: int64_t) \<and>
   goal_info_stamp_to_nanosec
     (nanosec_to_goal_info_stamp 2147483648000000000
        \<lparr>uuid = [], stamp_sec = 0, stamp_nanosec = 0\<rparr>) = - 2147483648000000000 \<and>
   goal_info_stamp_to_nanosec
     (nanosec_to_goal_info_stamp 2147483648000000000
        \<lparr>uuid = [], stamp_sec = 0, stamp_nanosec = 0\<rparr>) \<noteq> 2147483648000000000"
  by (simp add: goal_info_stamp_to_nanosec_def nanosec_to_goal_info_stamp_def
      RCUTILS_S_TO_NS_def RCUTILS_NS_TO_S_def int64_div_def int64_rem_def
      signed_divide_int_def signed_modulo_int_def word_sle_eq)

text \<open>
  C7, amended: for every nanosecond value \<open>t\<close> with \<open>0 \<le> t < 2^31 * 10^9\<close> (the
  instants whose seconds fit the \<open>int32_t\<close> field), splitting \<open>t\<close> with
  \<open>_nanosec_to_goal_info_stamp\<close> and reassembling it with
  \<open>_goal_info_stamp_to_nanosec\<close> gives \<open>sec * 10^9 + nanosec = t\<close>; the uuid is left
  as it was.
\<close>

theorem C7_round_trip_in_range:
  fixes t :: int64_t
  assumes "0 \<le>s t" and "t <s 2147483648000000000"
  shows "goal_info_stamp_to_nanosec (nanosec_to_goal_info_stamp t goal_info) = t \<and>
         uuid (nanosec_to_goal_info_stamp t goal_info) = uuid goal_info"
  using stamp_round_trip_below_2038[OF assms]
  by (simp add: nanosec_to_goal_info_stamp_def)

theorem C7_round_trip_in_range_witness:
  "0 \<le>s (1540000000123456789 :: int64_t) \<and>
   (1540000000123456789 :: int64_t) <s 2147483648000000000 \<and>
   goal_info_stamp_to_nanosec
     (nanosec_to_goal_info_stamp 1540000000123456789
        \<lparr>uuid = [], stamp_sec = 7, stamp_nanosec = 9\<rparr>) = 1540000000123456789"
proof -
  have a: "0 \<le>s (1540000000123456789 :: int64_t)" by (simp add: word_sle_eq)
  have b: "(1540000000123456789 :: int64_t) <s 2147483648000000000" by simp
  show ?thesis
    using a b C7_round_trip_in_range[OF a b,
        of "\<lparr>uuid = [], stamp_sec = 7, stamp_nanosec = 9\<rparr>"]
    by simp
qed

section \<open>The scan of rcl_action_server_goal_exists\<close>

lemma goal_exists_loop_True:
  assumes "num \<le> length arr"
    and "\<forall>k<num. arr ! k \<noteq> None"
    and "i \<le> j" and "j < num"
    and "rcl_action_goal_handle_get_info (arr ! j) = Inr ghi"
    and "uuidcmp (uuid ghi) (uuid gi)"
  shows "goal_exists_loop arr num gi i = Inr True"
  using assms(3)
proof (induction "num - i" arbitrary: i)
  case 0
  then show ?case using assms(4) by simp
next
  case (Suc k)
  have lt: "i < num" using Suc.prems assms(4) by simp
  have k: "k = num - (i + 1)" using Suc.hyps(2) by simp
  have sl: "slot arr i = Inr (arr ! i)" using lt assms(1) by (simp add: slot_in_range)
  obtain hi where hi: "arr ! i = Some hi" using assms(2) lt by auto
  have gi_i: "rcl_action_goal_handle_get_info (arr ! i) = Inr (info hi)"
    by (simp add: hi rcl_action_goal_handle_get_info_def)
  show ?case
  proof (cases "uuidcmp (uuid (info hi)) (uuid gi)")
    case True
    show ?thesis
      by (subst goal_exists_loop.simps) (simp add: lt sl gi_i True)
  next
    case False
    then have "i \<noteq> j" using assms(5,6) gi_i by auto
    then have "i + 1 \<le> j" using Suc.prems by simp
    from Suc.hyps(1)[OF k this] show ?thesis
      by (subst goal_exists_loop.simps) (simp add: lt sl gi_i False)
  qed
qed

lemma goal_exists_tracked_uuid:
  assumes v: "rcl_action_server_is_valid action_server = Inr impl"
    and n: "num_goal_handles impl = length (goal_handles impl)"
    and a: "\<forall>h \<in> set (goal_handles impl). h \<noteq> None"
    and h: "h \<in> set (goal_handles impl)" "rcl_action_goal_handle_get_info h = Inr ghi"
    and u: "uuidcmp (uuid ghi) (uuid goal_info)"
  shows "rcl_action_server_goal_exists action_server (Some goal_info) = Inr True"
proof -
  obtain j where j: "j < length (goal_handles impl)" "goal_handles impl ! j = h"
    using h(1) by (auto simp: in_set_conv_nth)
  have "\<forall>k<num_goal_handles impl. goal_handles impl ! k \<noteq> None" using a n by simp
  then have "goal_exists_loop (goal_handles impl) (num_goal_handles impl) goal_info 0 = Inr True"
    using goal_exists_loop_True[of "num_goal_handles impl" "goal_handles impl" 0 j ghi goal_info]
      n j h(2) u by simp
  then show ?thesis using v by (simp add: rcl_action_server_goal_exists_def)
qed

section \<open>Acceptance\<close>

lemma accept_rejects_existing:
  assumes v: "rcl_action_server_is_valid action_server = Inr impl"
    and e: "rcl_action_server_goal_exists action_server (Some goal_info) = Inr True"
  shows "rcl_action_accept_new_goal env action_server (Some goal_info) =
           Inr (Inl ''goal ID already exists'', action_server)"
  using v e by (simp add: rcl_action_accept_new_goal_def)

lemma reallocate_grow:
  "length arr = num \<Longrightarrow>
   (reallocate arr ((num + 1) * sizeof_goal_handle_ptr))[num := h] = arr @ [h]"
  by (auto simp: reallocate_def sizeof_goal_handle_ptr_def list_update_append)

lemma accept_success:
  assumes "rcl_action_accept_new_goal env action_server (Some goal_info) =
             Inr (Inr goal_handle, action_server')"
    and v: "rcl_action_server_is_valid action_server = Inr impl"
    and c: "clock_get_now env = Inr now"
  shows "goal_handle = Some \<lparr>info = nanosec_to_goal_info_stamp now goal_info,
                             active = True, cancelable = True\<rparr>"
    and "action_server' =
           Some (impl\<lparr>goal_handles :=
                        (reallocate (goal_handles impl)
                           ((num_goal_handles impl + 1) * sizeof_goal_handle_ptr))
                        [num_goal_handles impl := goal_handle],
                      num_goal_handles := num_goal_handles impl + 1\<rparr>)"
  using assms
  by (auto simp: rcl_action_accept_new_goal_def rcl_action_goal_handle_init_def Let_def
      split: sum.splits option.splits if_splits prod.splits)

lemma accept_success_clock:
  assumes "rcl_action_accept_new_goal env action_server (Some goal_info) =
             Inr (Inr goal_handle, action_server')"
  shows "\<exists>impl now. rcl_action_server_is_valid action_server = Inr impl \<and>
                    clock_get_now env = Inr now"
  using assms
  by (auto simp: rcl_action_accept_new_goal_def rcl_action_goal_handle_init_def Let_def
      split: sum.splits option.splits if_splits prod.splits)

text \<open>
  The two facts assumed of the goal table below (the count is the number of slots, every
  tracked handle is valid) hold for the empty table of a fresh server and are kept by
  every successful acceptance.
\<close>

lemma accept_preserves_table_invariant:
  assumes v: "rcl_action_server_is_valid action_server = Inr impl"
    and n: "num_goal_handles impl = length (goal_handles impl)"
    and a: "\<forall>h \<in> set (goal_handles impl). h \<noteq> None"
    and acc: "rcl_action_accept_new_goal env action_server (Some goal_info) =
                Inr (Inr goal_handle, action_server')"
  shows "\<exists>impl'. rcl_action_server_is_valid action_server' = Inr impl' \<and>
           num_goal_handles impl' = length (goal_handles impl') \<and>
           (\<forall>h \<in> set (goal_handles impl'). h \<noteq> None)"
proof -
  from accept_success_clock[OF acc] v obtain now where c: "clock_get_now env = Inr now"
    by auto
  note s = accept_success[OF acc v c]
  let ?impl' = "impl\<lparr>goal_handles := goal_handles impl @ [goal_handle],
                     num_goal_handles := num_goal_handles impl + 1\<rparr>"
  have s': "action_server' = Some ?impl'"
    using reallocate_grow[of "goal_handles impl" "num_goal_handles impl" goal_handle] n
    by (simp add: s(2))
  have v': "rcl_action_server_is_valid action_server' = Inr ?impl'"
    using v valid_server_Some[OF v] valid_after_update[of impl] by (simp add: s')
  have "num_goal_handles ?impl' = length (goal_handles ?impl')" using n by simp
  moreover have "\<forall>h \<in> set (goal_handles ?impl'). h \<noteq> None" using a s(1) by simp
  ultimately show ?thesis using v' by blast
qed

section \<open>The cancel loops\<close>

lemma cancel_goals_loop_done:
  "\<not> i < num \<Longrightarrow> cancel_goals_loop arr num ru rn i acc ret = Inr (ret, acc)"
  by (subst cancel_goals_loop.simps) simp

lemma cancel_goals_loop_invalid:
  "i < num \<Longrightarrow> i < length arr \<Longrightarrow> arr ! i = None \<Longrightarrow>
   cancel_goals_loop arr num ru rn i acc ret =
   cancel_goals_loop arr num ru rn (i + 1) acc RCL_RET_ERROR"
  by (subst cancel_goals_loop.simps)
     (simp add: slot_in_range rcl_action_goal_handle_get_info_def)

lemma cancel_goals_loop_valid:
  "i < num \<Longrightarrow> i < length arr \<Longrightarrow> arr ! i = Some hi \<Longrightarrow>
   cancel_goals_loop arr num ru rn i acc ret =
   (if cancel_selects ru rn (arr ! i)
    then cancel_goals_loop arr num ru rn (i + 1) (acc @ [arr ! i]) ret
    else cancel_goals_loop arr num ru rn (i + 1) acc ret)"
  by (subst cancel_goals_loop.simps)
     (auto simp: slot_in_range rcl_action_goal_handle_get_info_def cancel_selects_def
        handle_stamp_le_def handle_uuid_matches_def)

lemma cancel_selects_None: "\<not> cancel_selects ru rn None"
  by (simp add: cancel_selects_def rcl_action_goal_handle_is_cancelable_def)

lemma cancel_goals_loop_filter:
  assumes "num \<le> length arr"
  shows "\<exists>r. cancel_goals_loop arr num ru rn i acc ret =
           Inr (r, acc @ filter (cancel_selects ru rn) (drop i (take num arr)))"
proof (induction "num - i" arbitrary: i acc ret)
  case 0
  then have "\<not> i < num" by simp
  then show ?case by (simp add: cancel_goals_loop_done)
next
  case (Suc n)
  then have lt: "i < num" and n: "n = num - (i + 1)" by simp_all
  have lt': "i < length arr" using lt assms by simp
  note step = drop_take_step[OF lt assms]
  show ?case
  proof (cases "arr ! i")
    case None
    then show ?thesis
      using Suc.hyps(1)[OF n, of acc RCL_RET_ERROR]
      by (simp add: cancel_goals_loop_invalid[OF lt lt' None] step cancel_selects_None)
  next
    case (Some hi)
    show ?thesis
      using Suc.hyps(1)[OF n, of "acc @ [arr ! i]" ret] Suc.hyps(1)[OF n, of acc ret]
      by (simp add: cancel_goals_loop_valid[OF lt lt' Some] step)
  qed
qed

lemma cancel_one_goal_loop_done:
  "\<not> i < num \<Longrightarrow> cancel_one_goal_loop arr num ru i acc ret = Inr (ret, acc)"
  by (subst cancel_one_goal_loop.simps) simp

lemma cancel_one_goal_loop_invalid:
  "i < num \<Longrightarrow> i < length arr \<Longrightarrow> arr ! i = None \<Longrightarrow>
   cancel_one_goal_loop arr num ru i acc ret =
   cancel_one_goal_loop arr num ru (i + 1) acc RCL_RET_ERROR"
  by (subst cancel_one_goal_loop.simps)
     (simp add: slot_in_range rcl_action_goal_handle_get_info_def)

lemma cancel_one_goal_loop_valid:
  "i < num \<Longrightarrow> i < length arr \<Longrightarrow> arr ! i = Some hi \<Longrightarrow>
   cancel_one_goal_loop arr num ru i acc ret =
   (if handle_uuid_matches ru (arr ! i)
    then Inr (ret, if rcl_action_goal_handle_is_cancelable (arr ! i)
                   then acc @ [arr ! i] else acc)
    else cancel_one_goal_loop arr num ru (i + 1) acc ret)"
  by (subst cancel_one_goal_loop.simps)
     (simp add: slot_in_range rcl_action_goal_handle_get_info_def handle_uuid_matches_def)

lemma handle_uuid_matches_None: "\<not> handle_uuid_matches ru None"
  by (simp add: handle_uuid_matches_def rcl_action_goal_handle_get_info_def)

lemma cancel_one_goal_loop_find:
  assumes "num \<le> length arr"
  shows "\<exists>r. cancel_one_goal_loop arr num ru i acc ret =
           Inr (r, acc @ first_uuid_match ru (drop i (take num arr)))"
proof (induction "num - i" arbitrary: i acc ret)
  case 0
  then have "\<not> i < num" by simp
  then show ?case by (simp add: cancel_one_goal_loop_done first_uuid_match_def)
next
  case (Suc n)
  then have lt: "i < num" and n: "n = num - (i + 1)" by simp_all
  have lt': "i < length arr" using lt assms by simp
  note step = drop_take_step[OF lt assms]
  show ?case
  proof (cases "arr ! i")
    case None
    then show ?thesis
      using Suc.hyps(1)[OF n, of acc RCL_RET_ERROR]
      by (simp add: cancel_one_goal_loop_invalid[OF lt lt' None] step
          handle_uuid_matches_None first_uuid_match_def)
  next
    case (Some hi)
    show ?thesis
      using Suc.hyps(1)[OF n, of acc ret]
      by (simp add: cancel_one_goal_loop_valid[OF lt lt' Some] step first_uuid_match_def)
  qed
qed

section \<open>The sweep loop\<close>


lemma clear_expired_loop_keep:
  "i < num \<Longrightarrow> i < length arr \<Longrightarrow> \<not> goal_expired ct tmo (arr ! i) \<Longrightarrow>
   clear_expired_loop ct tmo arr num i n ret =
   clear_expired_loop ct tmo arr num (i + 1) n
     (if arr ! i = None then RCL_RET_ERROR else ret)"
  by (subst clear_expired_loop.simps)
     (auto simp: slot_in_range goal_expired_def rcl_action_goal_handle_get_info_def
        rcl_action_goal_handle_is_active_def split: option.splits)

lemma clear_expired_loop_past_end:
  "i < num \<Longrightarrow> i < length arr \<Longrightarrow> goal_expired ct tmo (arr ! i) \<Longrightarrow> length arr \<le> num \<Longrightarrow>
   clear_expired_loop ct tmo arr num i n ret = Inl OutOfBounds"
  by (subst clear_expired_loop.simps)
     (auto simp: slot_def goal_expired_def rcl_action_goal_handle_get_info_def
        rcl_action_goal_handle_is_active_def split: option.splits)


lemma clear_expired_loop_faults:
  assumes "num = length arr" and "i \<le> j" and "j < num" and "goal_expired ct tmo (arr ! j)"
  shows "clear_expired_loop ct tmo arr num i n ret = Inl OutOfBounds"
  using assms(2)
proof (induction "num - i" arbitrary: i ret)
  case 0
  then show ?case using assms(3) by simp
next
  case (Suc k)
  have lt: "i < num" using Suc.prems assms(3) by simp
  have k: "k = num - (i + 1)" using Suc.hyps(2) by simp
  have lt': "i < length arr" using lt assms(1) by simp
  show ?case
  proof (cases "goal_expired ct tmo (arr ! i)")
    case True
    then show ?thesis
      using clear_expired_loop_past_end[OF lt lt' True] assms(1) by simp
  next
    case False
    then have "i \<noteq> j" using assms(4) by auto
    then have "i + 1 \<le> j" using Suc.prems by simp
    then show ?thesis
      using Suc.hyps(1)[OF k] by (simp add: clear_expired_loop_keep[OF lt lt' False])
  qed
qed


lemma clear_expired_goals_faults:
  assumes v: "rcl_action_server_is_valid action_server = Inr impl"
    and n: "num_goal_handles impl = length (goal_handles impl)"
    and e: "h \<in> set (goal_handles impl)" "goal_expired now (result_timeout impl) h"
  shows "rcl_action_clear_expired_goals (Inr now) shrink_ok action_server (Some c) =
           Inl OutOfBounds"
proof -
  obtain j where j: "j < length (goal_handles impl)" "goal_handles impl ! j = h"
    using e(1) by (auto simp: in_set_conv_nth)
  have "clear_expired_loop now (result_timeout impl) (goal_handles impl) (num_goal_handles impl)
       0 0 RCL_RET_OK = Inl OutOfBounds"
    using clear_expired_loop_faults[OF n, of 0 j now "result_timeout impl" 0 RCL_RET_OK] j e(2) n
    by simp
  then show ?thesis
    using v by (simp add: rcl_action_clear_expired_goals_def)
qed


section \<open>Cancel-request resolution\<close>

lemma sle_INT64_MAX: "(x :: int64_t) \<le>s INT64_MAX"
proof -
  have "sint x < 2 ^ 63" using sint_lt[of x] by simp
  then show ?thesis by (simp add: word_sle_eq INT64_MAX_def)
qed

lemma cancel_selects_INT64_MAX:
  "cancel_selects ru INT64_MAX = rcl_action_goal_handle_is_cancelable"
proof
  fix h
  show "cancel_selects ru INT64_MAX h = rcl_action_goal_handle_is_cancelable h"
    by (cases h)
       (simp_all add: cancel_selects_def handle_stamp_le_def rcl_action_goal_handle_get_info_def
          rcl_action_goal_handle_is_cancelable_def sle_INT64_MAX)
qed

lemma handle_uuid_matches_zero:
  "uuidcmpzero ru \<Longrightarrow> handle_uuid_matches ru h = handle_uuid_matches zerouuid h"
  by (simp add: uuidcmpzero_def handle_uuid_matches_def uuidcmp_def zerouuid_def UUID_SIZE_def
      split: sum.splits)

lemma first_uuid_match_props:
  "length (first_uuid_match ru hs) \<le> 1 \<and>
   (\<forall>h \<in> set (first_uuid_match ru hs).
      h \<in> set hs \<and> rcl_action_goal_handle_is_cancelable h \<and> handle_uuid_matches ru h)"
proof (cases "find (handle_uuid_matches ru) hs")
  case None
  then show ?thesis by (simp add: first_uuid_match_def)
next
  case (Some h)
  then obtain i where "i < length hs" "handle_uuid_matches ru (hs ! i)" "h = hs ! i"
    by (auto simp: find_Some_iff)
  then have "h \<in> set hs" "handle_uuid_matches ru h" by simp_all
  then show ?thesis using Some by (simp add: first_uuid_match_def)
qed

lemma goal_handles_to_cancel_single:
  assumes n: "num_goal_handles impl = length (goal_handles impl)"
    and c: "\<not> uuidcmpzero (uuid req)" "goal_info_stamp_to_nanosec req = 0"
  shows "map_sum id snd (goal_handles_to_cancel impl req) =
           Inr (first_uuid_match (uuid req) (goal_handles impl))"
proof -
  from cancel_one_goal_loop_find[of "num_goal_handles impl" "goal_handles impl" "uuid req" 0 "[]"
      RCL_RET_OK] n
  obtain r where "cancel_one_goal_loop (goal_handles impl) (num_goal_handles impl) (uuid req) 0 []
      RCL_RET_OK = Inr (r, first_uuid_match (uuid req) (goal_handles impl))" by auto
  then show ?thesis using c by (simp add: goal_handles_to_cancel_def)
qed

lemma goal_handles_to_cancel_all:
  assumes n: "num_goal_handles impl = length (goal_handles impl)"
    and c: "uuidcmpzero (uuid req)" "goal_info_stamp_to_nanosec req = 0"
  shows "map_sum id snd (goal_handles_to_cancel impl req) =
           Inr (filter rcl_action_goal_handle_is_cancelable (goal_handles impl))"
proof -
  from cancel_goals_loop_filter[of "num_goal_handles impl" "goal_handles impl" "uuid req"
      INT64_MAX 0 "[]" RCL_RET_OK] n
  obtain r where "cancel_goals_loop (goal_handles impl) (num_goal_handles impl) (uuid req)
      INT64_MAX 0 [] RCL_RET_OK =
      Inr (r, filter (cancel_selects (uuid req) INT64_MAX) (goal_handles impl))" by auto
  then show ?thesis using c
    by (simp add: goal_handles_to_cancel_def cancel_selects_INT64_MAX)
qed

lemma goal_handles_to_cancel_stamped:
  assumes n: "num_goal_handles impl = length (goal_handles impl)"
    and c: "goal_info_stamp_to_nanosec req \<noteq> 0"
  shows "map_sum id snd (goal_handles_to_cancel impl req) =
           Inr (filter (cancel_selects (uuid req) (goal_info_stamp_to_nanosec req))
                  (goal_handles impl))"
proof -
  from cancel_goals_loop_filter[of "num_goal_handles impl" "goal_handles impl" "uuid req"
      "goal_info_stamp_to_nanosec req" 0 "[]" RCL_RET_OK] n
  obtain r where "cancel_goals_loop (goal_handles impl) (num_goal_handles impl) (uuid req)
      (goal_info_stamp_to_nanosec req) 0 [] RCL_RET_OK =
      Inr (r, filter (cancel_selects (uuid req) (goal_info_stamp_to_nanosec req))
                (goal_handles impl))" by auto
  then show ?thesis using c
    by (simp add: goal_handles_to_cancel_def)
qed

text \<open>
  The gathered handles are the ones that go through the transition, and a response that
  cannot be initialised ends the call with \<open>RCL_RET_ERROR\<close> whatever the code was.
\<close>

lemma transition_loop_handles:
  "snd (snd (transition_loop update to_cancel i entries ret_final)) =
     map (\<lambda>h. snd (update h)) to_cancel"
  by (induction to_cancel arbitrary: i entries ret_final)
     (simp_all add: Let_def case_prod_beta)

lemma process_cancel_request_transitions_selected:
  assumes v: "rcl_action_server_is_valid action_server = Inr impl"
    and t: "temporary_allocate_ok env"
    and r: "\<forall>size. cancel_response_init env size = RCL_RET_OK"
    and s: "map_sum id snd (goal_handles_to_cancel impl request) = Inr to_cancel"
  shows "map_sum id (\<lambda>res. snd (snd res))
           (rcl_action_process_cancel_request env action_server (Some request) (Some response)) =
         Inr (map (\<lambda>h. snd (update_goal_state_cancel env h)) to_cancel)"
proof -
  from s obtain ret where g: "goal_handles_to_cancel impl request = Inr (ret, to_cancel)"
    by (cases "goal_handles_to_cancel impl request") auto
  show ?thesis
  proof (cases "to_cancel = []")
    case True
    then show ?thesis using v t g by (simp add: rcl_action_process_cancel_request_def)
  next
    case False
    then show ?thesis
      using v t r g transition_loop_handles[of "update_goal_state_cancel env" to_cancel 0
          "replicate (length to_cancel) None" ret]
      by (simp add: rcl_action_process_cancel_request_def Let_def case_prod_beta)
  qed
qed

lemma process_cancel_request_response_init_failure:
  assumes v: "rcl_action_server_is_valid action_server = Inr impl"
    and t: "temporary_allocate_ok env"
    and g: "goal_handles_to_cancel impl request = Inr (ret, to_cancel)"
    and ne: "to_cancel \<noteq> []"
    and r: "cancel_response_init env (length to_cancel) \<noteq> RCL_RET_OK"
  shows "rcl_action_process_cancel_request env action_server (Some request) (Some response) =
           Inr (RCL_RET_ERROR, Some response, [])"
  using assms by (simp add: rcl_action_process_cancel_request_def Let_def)

lemmas example_defs =
  server_impl_of_def goal_handle_of_def uuidcmpzero_def uuidcmp_def zerouuid_def UUID_SIZE_def
  goal_info_stamp_to_nanosec_def RCUTILS_S_TO_NS_def rcl_action_goal_handle_get_info_def
  rcl_action_goal_handle_is_cancelable_def rcl_action_goal_handle_is_active_def

lemmas selection_defs =
  first_uuid_match_def handle_uuid_matches_def handle_stamp_le_def

lemmas accept_eval_defs =
  rcl_action_accept_new_goal_def rcl_action_server_goal_exists_def rcl_action_server_is_valid_def
  goal_exists_loop.simps slot_def rcl_action_goal_handle_init_def reallocate_def
  sizeof_goal_handle_ptr_def nanosec_to_goal_info_stamp_def RCUTILS_NS_TO_S_def
  int64_div_def int64_rem_def signed_divide_int_def signed_modulo_int_def Let_def

text \<open>
  C1, as stated: for a zero uuid and a non-zero stamp the selected goals are the
  cancelable goals stamped at or before the request stamp. \<open>accept_new_goal\<close> accepts
  an info with the zero uuid; the second loop also compares the request uuid with the
  uuid of each goal, so the request \<open>(uuid = 0, stamp = 50)\<close> selects the cancelable
  goal with the zero uuid although it is stamped \<open>100\<close>.
\<close>

theorem C1_zero_uuid_goal_counterexample:
  "rcl_action_accept_new_goal
     \<lparr>table_reallocate = Reallocate_Moves, allocate_ok = True, clock_get_now = Inr 100,
      goal_handle_init_ok = True\<rparr>
     (Some (server_impl_of 900000000000 []))
     (Some \<lparr>uuid = replicate 16 0, stamp_sec = 0, stamp_nanosec = 0\<rparr>) =
     Inr (Inr (goal_handle_of 0 0 100 True True),
          Some (server_impl_of 900000000000 [goal_handle_of 0 0 100 True True])) \<and>
   uuidcmpzero (uuid \<lparr>uuid = replicate 16 0, stamp_sec = 0, stamp_nanosec = 50\<rparr>) \<and>
   goal_info_stamp_to_nanosec \<lparr>uuid = replicate 16 0, stamp_sec = 0, stamp_nanosec = 50\<rparr> \<noteq> 0 \<and>
   \<not> handle_stamp_le
       (goal_info_stamp_to_nanosec \<lparr>uuid = replicate 16 0, stamp_sec = 0, stamp_nanosec = 50\<rparr>)
       (goal_handle_of 0 0 100 True True) \<and>
   goal_handles_to_cancel (server_impl_of 900000000000 [goal_handle_of 0 0 100 True True])
     \<lparr>uuid = replicate 16 0, stamp_sec = 0, stamp_nanosec = 50\<rparr> =
     Inr (RCL_RET_OK, [goal_handle_of 0 0 100 True True])"
  by (simp add: accept_eval_defs example_defs selection_defs goal_handles_to_cancel_def
      cancel_goals_loop.simps slot_def word_sle_eq)

text \<open>
  C1, amended: \<open>process_cancel_request\<close> classifies the request by its zero sentinels.
  On a table whose count is the number of its slots, the handles gathered in
  \<open>goal_handles_to_cancel\<close> are: for a non-zero uuid and a zero stamp, at most one
  handle, the first one that carries the request uuid, and only if it is cancelable; for
  a zero uuid and a zero stamp, every cancelable goal; for a zero uuid and a non-zero
  stamp, every cancelable goal stamped at or before the request stamp and every
  cancelable goal that itself carries the zero uuid; for a non-zero uuid and a non-zero
  stamp, the union of the stamp-bounded set and the uuid match.
\<close>

theorem C1_cancel_request_classification:
  assumes n: "num_goal_handles impl = length (goal_handles impl)"
  shows
    "(\<not> uuidcmpzero (uuid req) \<and> goal_info_stamp_to_nanosec req = 0 \<longrightarrow>
        map_sum id snd (goal_handles_to_cancel impl req) =
          Inr (first_uuid_match (uuid req) (goal_handles impl)) \<and>
        length (first_uuid_match (uuid req) (goal_handles impl)) \<le> 1 \<and>
        (\<forall>h \<in> set (first_uuid_match (uuid req) (goal_handles impl)).
           h \<in> set (goal_handles impl) \<and> rcl_action_goal_handle_is_cancelable h \<and>
           handle_uuid_matches (uuid req) h)) \<and>
     (uuidcmpzero (uuid req) \<and> goal_info_stamp_to_nanosec req = 0 \<longrightarrow>
        map_sum id snd (goal_handles_to_cancel impl req) =
          Inr (filter rcl_action_goal_handle_is_cancelable (goal_handles impl))) \<and>
     (uuidcmpzero (uuid req) \<and> goal_info_stamp_to_nanosec req \<noteq> 0 \<longrightarrow>
        map_sum id snd (goal_handles_to_cancel impl req) =
          Inr (filter (\<lambda>h. rcl_action_goal_handle_is_cancelable h \<and>
                         (handle_stamp_le (goal_info_stamp_to_nanosec req) h \<or>
                          handle_uuid_matches zerouuid h))
                 (goal_handles impl))) \<and>
     (\<not> uuidcmpzero (uuid req) \<and> goal_info_stamp_to_nanosec req \<noteq> 0 \<longrightarrow>
        map_sum id snd (goal_handles_to_cancel impl req) =
          Inr (filter (\<lambda>h. rcl_action_goal_handle_is_cancelable h \<and>
                         (handle_stamp_le (goal_info_stamp_to_nanosec req) h \<or>
                          handle_uuid_matches (uuid req) h))
                 (goal_handles impl)))"
proof (intro conjI impI)
  assume c: "\<not> uuidcmpzero (uuid req) \<and> goal_info_stamp_to_nanosec req = 0"
  show "map_sum id snd (goal_handles_to_cancel impl req) =
          Inr (first_uuid_match (uuid req) (goal_handles impl))"
    using goal_handles_to_cancel_single[OF n] c by simp
  show "length (first_uuid_match (uuid req) (goal_handles impl)) \<le> 1"
    using first_uuid_match_props by blast
  show "\<forall>h \<in> set (first_uuid_match (uuid req) (goal_handles impl)).
           h \<in> set (goal_handles impl) \<and> rcl_action_goal_handle_is_cancelable h \<and>
           handle_uuid_matches (uuid req) h"
    using first_uuid_match_props by blast
next
  assume c: "uuidcmpzero (uuid req) \<and> goal_info_stamp_to_nanosec req = 0"
  show "map_sum id snd (goal_handles_to_cancel impl req) =
          Inr (filter rcl_action_goal_handle_is_cancelable (goal_handles impl))"
    using goal_handles_to_cancel_all[OF n] c by simp
next
  assume c: "uuidcmpzero (uuid req) \<and> goal_info_stamp_to_nanosec req \<noteq> 0"
  have sel: "cancel_selects (uuid req) (goal_info_stamp_to_nanosec req) =
             (\<lambda>h. rcl_action_goal_handle_is_cancelable h \<and>
                         (handle_stamp_le (goal_info_stamp_to_nanosec req) h \<or>
                          handle_uuid_matches zerouuid h))"
    using c by (auto simp: cancel_selects_def handle_uuid_matches_zero fun_eq_iff)
  show "map_sum id snd (goal_handles_to_cancel impl req) =
          Inr (filter (\<lambda>h. rcl_action_goal_handle_is_cancelable h \<and>
                         (handle_stamp_le (goal_info_stamp_to_nanosec req) h \<or>
                          handle_uuid_matches zerouuid h))
                 (goal_handles impl))"
    using goal_handles_to_cancel_stamped[OF n, of req] c by (simp add: sel)
next
  assume c: "\<not> uuidcmpzero (uuid req) \<and> goal_info_stamp_to_nanosec req \<noteq> 0"
  have sel: "cancel_selects (uuid req) (goal_info_stamp_to_nanosec req) =
             (\<lambda>h. rcl_action_goal_handle_is_cancelable h \<and>
                         (handle_stamp_le (goal_info_stamp_to_nanosec req) h \<or>
                          handle_uuid_matches (uuid req) h))"
    by (auto simp: cancel_selects_def fun_eq_iff)
  show "map_sum id snd (goal_handles_to_cancel impl req) =
          Inr (filter (\<lambda>h. rcl_action_goal_handle_is_cancelable h \<and>
                         (handle_stamp_le (goal_info_stamp_to_nanosec req) h \<or>
                          handle_uuid_matches (uuid req) h))
                 (goal_handles impl))"
    using goal_handles_to_cancel_stamped[OF n, of req] c by (simp add: sel)
qed

text \<open>
  Witness for C1: a table of three goals (the third not cancelable) and one request of
  each of the four classes.
\<close>

theorem C1_cancel_request_classification_witness:
  "num_goal_handles (server_impl_of 0
     [goal_handle_of 1 0 100 True True, goal_handle_of 2 0 500 True True,
      goal_handle_of 3 0 50 True False]) =
   length (goal_handles (server_impl_of 0
     [goal_handle_of 1 0 100 True True, goal_handle_of 2 0 500 True True,
      goal_handle_of 3 0 50 True False])) \<and>
   map_sum id snd (goal_handles_to_cancel
     (server_impl_of 0
        [goal_handle_of 1 0 100 True True, goal_handle_of 2 0 500 True True,
         goal_handle_of 3 0 50 True False])
     \<lparr>uuid = replicate 16 2, stamp_sec = 0, stamp_nanosec = 0\<rparr>) =
     Inr [goal_handle_of 2 0 500 True True] \<and>
   map_sum id snd (goal_handles_to_cancel
     (server_impl_of 0
        [goal_handle_of 1 0 100 True True, goal_handle_of 2 0 500 True True,
         goal_handle_of 3 0 50 True False])
     \<lparr>uuid = replicate 16 0, stamp_sec = 0, stamp_nanosec = 0\<rparr>) =
     Inr [goal_handle_of 1 0 100 True True, goal_handle_of 2 0 500 True True] \<and>
   map_sum id snd (goal_handles_to_cancel
     (server_impl_of 0
        [goal_handle_of 1 0 100 True True, goal_handle_of 2 0 500 True True,
         goal_handle_of 3 0 50 True False])
     \<lparr>uuid = replicate 16 0, stamp_sec = 0, stamp_nanosec = 150\<rparr>) =
     Inr [goal_handle_of 1 0 100 True True] \<and>
   map_sum id snd (goal_handles_to_cancel
     (server_impl_of 0
        [goal_handle_of 1 0 100 True True, goal_handle_of 2 0 500 True True,
         goal_handle_of 3 0 50 True False])
     \<lparr>uuid = replicate 16 2, stamp_sec = 0, stamp_nanosec = 150\<rparr>) =
     Inr [goal_handle_of 1 0 100 True True, goal_handle_of 2 0 500 True True]"
proof -
  let ?impl = "server_impl_of 0
     [goal_handle_of 1 0 100 True True, goal_handle_of 2 0 500 True True,
      goal_handle_of 3 0 50 True False]"
  have n: "num_goal_handles ?impl = length (goal_handles ?impl)"
    by (simp add: server_impl_of_def)
  have r1: "map_sum id snd (goal_handles_to_cancel ?impl
     \<lparr>uuid = replicate 16 2, stamp_sec = 0, stamp_nanosec = 0\<rparr>) =
     Inr [goal_handle_of 2 0 500 True True]"
    using C1_cancel_request_classification[OF n,
        of "\<lparr>uuid = replicate 16 2, stamp_sec = 0, stamp_nanosec = 0\<rparr>"]
    by (simp add: example_defs selection_defs)
  have r2: "map_sum id snd (goal_handles_to_cancel ?impl
     \<lparr>uuid = replicate 16 0, stamp_sec = 0, stamp_nanosec = 0\<rparr>) =
     Inr [goal_handle_of 1 0 100 True True, goal_handle_of 2 0 500 True True]"
    using C1_cancel_request_classification[OF n,
        of "\<lparr>uuid = replicate 16 0, stamp_sec = 0, stamp_nanosec = 0\<rparr>"]
    by (simp add: example_defs selection_defs)
  have r3: "map_sum id snd (goal_handles_to_cancel ?impl
     \<lparr>uuid = replicate 16 0, stamp_sec = 0, stamp_nanosec = 150\<rparr>) =
     Inr [goal_handle_of 1 0 100 True True]"
    using C1_cancel_request_classification[OF n,
        of "\<lparr>uuid = replicate 16 0, stamp_sec = 0, stamp_nanosec = 150\<rparr>"]
    by (simp add: example_defs selection_defs)
  have r4: "map_sum id snd (goal_handles_to_cancel ?impl
     \<lparr>uuid = replicate 16 2, stamp_sec = 0, stamp_nanosec = 150\<rparr>) =
     Inr [goal_handle_of 1 0 100 True True, goal_handle_of 2 0 500 True True]"
    using C1_cancel_request_classification[OF n,
        of "\<lparr>uuid = replicate 16 2, stamp_sec = 0, stamp_nanosec = 150\<rparr>"]
    by (simp add: example_defs selection_defs)
  show ?thesis using n r1 r2 r3 r4 by simp
qed

lemma negative_request_not_zero:
  fixes rn :: int64_t
  assumes "rn <s 0" shows "rn \<noteq> 0"
  using assms by (auto simp: word_sless_alt)

lemma stamp_le_negative_request:
  fixes rn :: int64_t
  assumes neg: "rn <s 0"
    and gi: "rcl_action_goal_handle_get_info h = Inr gi"
    and nonneg: "0 \<le>s goal_info_stamp_to_nanosec gi"
  shows "\<not> handle_stamp_le rn h"
proof -
  have "sint rn < 0" using neg by (simp add: word_sless_alt)
  moreover have "0 \<le> sint (goal_info_stamp_to_nanosec gi)"
    using nonneg by (simp add: word_sle_eq)
  ultimately have "\<not> goal_info_stamp_to_nanosec gi \<le>s rn" by (simp add: word_sle_eq)
  then show ?thesis using gi by (simp add: handle_stamp_le_def)
qed

text \<open>
  C8, as stated: in the union and time-bounded branches a request stamp that reassembles
  to a negative 64-bit value is compared as the corresponding large unsigned value. The
  request \<open>(sec = -1, nanosec = 0)\<close> reassembles to \<open>- 10^9\<close>; read as unsigned that
  is \<open>2^64 - 10^9\<close>, which is not below the stamp \<open>100\<close> of the one cancelable goal,
  yet the goal is not selected.
\<close>

theorem C8_unsigned_reading_counterexample:
  "goal_info_stamp_to_nanosec \<lparr>uuid = replicate 16 0, stamp_sec = - 1, stamp_nanosec = 0\<rparr> <s 0 \<and>
   rcl_action_goal_handle_is_cancelable (goal_handle_of 1 0 100 True True) \<and>
   uint (goal_info_stamp_to_nanosec
           \<lparr>uuid = replicate 16 1, stamp_sec = 0, stamp_nanosec = 100\<rparr>)
     \<le> uint (goal_info_stamp_to_nanosec
                \<lparr>uuid = replicate 16 0, stamp_sec = - 1, stamp_nanosec = 0\<rparr>) \<and>
   goal_handles_to_cancel (server_impl_of 0 [goal_handle_of 1 0 100 True True])
     \<lparr>uuid = replicate 16 0, stamp_sec = - 1, stamp_nanosec = 0\<rparr> = Inr (RCL_RET_OK, [])"
  by (simp add: example_defs selection_defs goal_handles_to_cancel_def
      cancel_goals_loop.simps slot_def word_sless_alt word_sle_eq)

text \<open>
  C8, amended: in the union and time-bounded branches the request stamp is compared as a
  signed 64-bit nanosecond count. For every request whose fields reassemble to a
  negative value the selected handles are the cancelable goals whose signed stamp is at
  or before that negative value, together with the cancelable goals that carry the
  request uuid; a goal with a non-negative stamp is never selected by the stamp
  comparison.
\<close>

theorem C8_request_stamp_is_signed:
  assumes n: "num_goal_handles impl = length (goal_handles impl)"
    and neg: "goal_info_stamp_to_nanosec req <s 0"
  shows "map_sum id snd (goal_handles_to_cancel impl req) =
           Inr (filter (\<lambda>h. rcl_action_goal_handle_is_cancelable h \<and>
                          (handle_stamp_le (goal_info_stamp_to_nanosec req) h \<or>
                           handle_uuid_matches (uuid req) h))
                  (goal_handles impl)) \<and>
         (\<forall>h gi. rcl_action_goal_handle_get_info h = Inr gi \<and>
                 0 \<le>s goal_info_stamp_to_nanosec gi \<longrightarrow>
                 \<not> handle_stamp_le (goal_info_stamp_to_nanosec req) h)"
proof
  have sel: "cancel_selects (uuid req) (goal_info_stamp_to_nanosec req) =
             (\<lambda>h. rcl_action_goal_handle_is_cancelable h \<and>
                         (handle_stamp_le (goal_info_stamp_to_nanosec req) h \<or>
                          handle_uuid_matches (uuid req) h))"
    by (auto simp: cancel_selects_def fun_eq_iff)
  show "map_sum id snd (goal_handles_to_cancel impl req) =
           Inr (filter (\<lambda>h. rcl_action_goal_handle_is_cancelable h \<and>
                          (handle_stamp_le (goal_info_stamp_to_nanosec req) h \<or>
                           handle_uuid_matches (uuid req) h))
                  (goal_handles impl))"
    using goal_handles_to_cancel_stamped[OF n negative_request_not_zero[OF neg]]
    by (simp add: sel)
  show "\<forall>h gi. rcl_action_goal_handle_get_info h = Inr gi \<and>
                 0 \<le>s goal_info_stamp_to_nanosec gi \<longrightarrow>
                 \<not> handle_stamp_le (goal_info_stamp_to_nanosec req) h"
    using stamp_le_negative_request[OF neg] by blast
qed

text \<open>
  Witness for C8: the request \<open>(sec = -1, nanosec = 0)\<close> with the uuid of the second
  goal selects that goal by its uuid and the third goal by its stamp \<open>- 2 * 10^9\<close>,
  and leaves out the first goal, whose stamp is \<open>100\<close>.
\<close>

theorem C8_request_stamp_is_signed_witness:
  "goal_info_stamp_to_nanosec \<lparr>uuid = replicate 16 2, stamp_sec = - 1, stamp_nanosec = 0\<rparr> <s 0 \<and>
   map_sum id snd (goal_handles_to_cancel
     (server_impl_of 0
        [goal_handle_of 1 0 100 True True, goal_handle_of 2 0 500 True True,
         goal_handle_of 3 (- 2) 0 True True])
     \<lparr>uuid = replicate 16 2, stamp_sec = - 1, stamp_nanosec = 0\<rparr>) =
     Inr [goal_handle_of 2 0 500 True True, goal_handle_of 3 (- 2) 0 True True] \<and>
   \<not> handle_stamp_le
       (goal_info_stamp_to_nanosec \<lparr>uuid = replicate 16 2, stamp_sec = - 1, stamp_nanosec = 0\<rparr>)
       (goal_handle_of 1 0 100 True True)"
proof -
  let ?impl = "server_impl_of 0
        [goal_handle_of 1 0 100 True True, goal_handle_of 2 0 500 True True,
         goal_handle_of 3 (- 2) 0 True True]"
  let ?req = "\<lparr>uuid = replicate 16 2, stamp_sec = - 1, stamp_nanosec = 0\<rparr>"
  have n: "num_goal_handles ?impl = length (goal_handles ?impl)"
    by (simp add: server_impl_of_def)
  have neg: "goal_info_stamp_to_nanosec ?req <s 0"
    by (simp add: goal_info_stamp_to_nanosec_def RCUTILS_S_TO_NS_def word_sless_alt)
  have gi: "rcl_action_goal_handle_get_info (goal_handle_of 1 0 100 True True) =
              Inr \<lparr>uuid = replicate 16 1, stamp_sec = 0, stamp_nanosec = 100\<rparr> \<and>
            0 \<le>s goal_info_stamp_to_nanosec
                   \<lparr>uuid = replicate 16 1, stamp_sec = 0, stamp_nanosec = 100\<rparr>"
    by (simp add: example_defs selection_defs word_sle_eq)
  note res = C8_request_stamp_is_signed[OF n neg]
  have sel: "map_sum id snd (goal_handles_to_cancel ?impl ?req) =
     Inr [goal_handle_of 2 0 500 True True, goal_handle_of 3 (- 2) 0 True True]"
    using res by (simp add: example_defs selection_defs word_sle_eq)
  have "\<not> handle_stamp_le (goal_info_stamp_to_nanosec ?req) (goal_handle_of 1 0 100 True True)"
    using res gi by blast
  then show ?thesis using neg sel by simp
qed

section \<open>Goal acceptance\<close>

text \<open>
  An acceptance that fails after the reallocation: the clock cannot be read and the
  block was moved. The call returns \<open>NULL\<close> with the clock's message, the server keeps
  its count of one and a pointer to the released block, and the next scan of the table
  reads a slot that is no longer there.
\<close>

lemma accept_failure_after_reallocation:
  "rcl_action_accept_new_goal
     \<lparr>table_reallocate = Reallocate_Moves, allocate_ok = True,
      clock_get_now = Inl ''clock not available'', goal_handle_init_ok = True\<rparr>
     (Some (server_impl_of 900000000000 [goal_handle_of 1 0 100 True True]))
     (Some \<lparr>uuid = replicate 16 2, stamp_sec = 0, stamp_nanosec = 0\<rparr>) =
     Inr (Inl ''clock not available'',
          Some ((server_impl_of 900000000000 [goal_handle_of 1 0 100 True True])
                  \<lparr>goal_handles := []\<rparr>)) \<and>
   rcl_action_server_goal_exists
     (Some ((server_impl_of 900000000000 [goal_handle_of 1 0 100 True True])
              \<lparr>goal_handles := []\<rparr>))
     (Some \<lparr>uuid = replicate 16 2, stamp_sec = 0, stamp_nanosec = 0\<rparr>) = Inl OutOfBounds"
  by (simp add: accept_eval_defs example_defs abandoned_block_def)




text \<open>
  C5: on an initialised server whose tracked handles are all valid, when
  \<open>accept_new_goal(info)\<close> has succeeded, a second call with the same uuid returns
  \<open>NULL\<close> with the error "goal ID already exists" and leaves the server as the first
  call left it: the table is the old one with the new handle appended, so its length has
  grown by exactly one across the two calls.
\<close>

theorem C5_second_accept_rejected:
  assumes v: "rcl_action_server_is_valid action_server = Inr impl"
    and n: "num_goal_handles impl = length (goal_handles impl)"
    and a: "\<forall>h \<in> set (goal_handles impl). h \<noteq> None"
    and acc: "rcl_action_accept_new_goal env action_server (Some goal_info) =
                Inr (Inr goal_handle, action_server')"
    and u: "uuidcmp (uuid goal_info') (uuid goal_info)"
  shows "rcl_action_accept_new_goal env' action_server' (Some goal_info') =
           Inr (Inl ''goal ID already exists'', action_server') \<and>
         map_option num_goal_handles action_server' = Some (num_goal_handles impl + 1) \<and>
         map_option goal_handles action_server' = Some (goal_handles impl @ [goal_handle])"
proof -
  from accept_success_clock[OF acc] v obtain now where c: "clock_get_now env = Inr now"
    by auto
  note s = accept_success[OF acc v c]
  let ?impl' = "impl\<lparr>goal_handles := goal_handles impl @ [goal_handle],
                     num_goal_handles := num_goal_handles impl + 1\<rparr>"
  have s': "action_server' = Some ?impl'"
    using reallocate_grow[of "goal_handles impl" "num_goal_handles impl" goal_handle] n
    by (simp add: s(2))
  have v': "rcl_action_server_is_valid action_server' = Inr ?impl'"
    using v valid_server_Some[OF v] valid_after_update[of impl] by (simp add: s')
  have n': "num_goal_handles ?impl' = length (goal_handles ?impl')" using n by simp
  have a': "\<forall>h \<in> set (goal_handles ?impl'). h \<noteq> None" using a s(1) by simp
  have info: "rcl_action_goal_handle_get_info goal_handle =
          Inr (nanosec_to_goal_info_stamp now goal_info)"
    by (simp add: s(1) rcl_action_goal_handle_get_info_def)
  have u': "uuidcmp (uuid (nanosec_to_goal_info_stamp now goal_info)) (uuid goal_info')"
    using u by (simp add: nanosec_to_goal_info_stamp_def uuidcmp_sym)
  have "rcl_action_server_goal_exists action_server' (Some goal_info') = Inr True"
    using goal_exists_tracked_uuid[OF v' n' a' _ info u'] by simp
  then have "rcl_action_accept_new_goal env' action_server' (Some goal_info') =
           Inr (Inl ''goal ID already exists'', action_server')"
    using accept_rejects_existing[OF v'] by simp
  then show ?thesis by (simp add: s')
qed

text \<open>
  Witness for C5: the same goal info is accepted at clock reading \<open>5000000300\<close> and
  rejected at \<open>6000000000\<close>.
\<close>

theorem C5_second_accept_rejected_witness:
  "rcl_action_accept_new_goal
     \<lparr>table_reallocate = Reallocate_Moves, allocate_ok = True, clock_get_now = Inr 5000000300,
      goal_handle_init_ok = True\<rparr>
     (Some (server_impl_of 900000000000 [goal_handle_of 1 0 100 True True]))
     (Some \<lparr>uuid = replicate 16 2, stamp_sec = 0, stamp_nanosec = 0\<rparr>) =
     Inr (Inr (goal_handle_of 2 5 300 True True),
          Some (server_impl_of 900000000000
                  [goal_handle_of 1 0 100 True True, goal_handle_of 2 5 300 True True])) \<and>
   rcl_action_accept_new_goal
     \<lparr>table_reallocate = Reallocate_Moves, allocate_ok = True, clock_get_now = Inr 6000000000,
      goal_handle_init_ok = True\<rparr>
     (Some (server_impl_of 900000000000
                  [goal_handle_of 1 0 100 True True, goal_handle_of 2 5 300 True True]))
     (Some \<lparr>uuid = replicate 16 2, stamp_sec = 0, stamp_nanosec = 0\<rparr>) =
     Inr (Inl ''goal ID already exists'',
          Some (server_impl_of 900000000000
                  [goal_handle_of 1 0 100 True True, goal_handle_of 2 5 300 True True]))"
proof -
  let ?env = "\<lparr>table_reallocate = Reallocate_Moves, allocate_ok = True,
               clock_get_now = Inr (5000000300 :: int64_t), goal_handle_init_ok = True\<rparr>"
  let ?env' = "\<lparr>table_reallocate = Reallocate_Moves, allocate_ok = True,
               clock_get_now = Inr (6000000000 :: int64_t), goal_handle_init_ok = True\<rparr>"
  let ?impl = "server_impl_of 900000000000 [goal_handle_of 1 0 100 True True]"
  let ?gi = "\<lparr>uuid = replicate 16 2, stamp_sec = 0, stamp_nanosec = 0\<rparr>"
  let ?h = "goal_handle_of 2 5 300 True True"
  let ?impl' = "server_impl_of 900000000000 [goal_handle_of 1 0 100 True True, ?h]"
  have acc: "rcl_action_accept_new_goal ?env (Some ?impl) (Some ?gi) =
               Inr (Inr ?h, Some ?impl')"
    by (simp add: accept_eval_defs example_defs)
  have v: "rcl_action_server_is_valid (Some ?impl) = Inr ?impl"
    by (rule server_impl_of_valid)
  have n: "num_goal_handles ?impl = length (goal_handles ?impl)"
    by (simp add: server_impl_of_def)
  have a: "\<forall>h \<in> set (goal_handles ?impl). h \<noteq> None"
    by (simp add: server_impl_of_def goal_handle_of_def)
  have u: "uuidcmp (uuid ?gi) (uuid ?gi)" by (simp add: uuidcmp_def)
  show ?thesis
    using acc C5_second_accept_rejected[OF v n a acc u, of ?env'] by simp
qed

text \<open>
  C10: the duplicate check spans every tracked goal, terminated or not. On an initialised
  server whose tracked handles are all valid, whenever the uuid of \<open>info\<close> equals the
  uuid of some tracked handle (nothing is assumed about \<open>is_active\<close> of that handle),
  \<open>goal_exists(info)\<close> is true and \<open>accept_new_goal(info)\<close> returns \<open>NULL\<close> with the
  server unchanged.
\<close>

theorem C10_duplicate_of_any_tracked_goal:
  assumes v: "rcl_action_server_is_valid action_server = Inr impl"
    and n: "num_goal_handles impl = length (goal_handles impl)"
    and a: "\<forall>h \<in> set (goal_handles impl). h \<noteq> None"
    and h: "goal_handle \<in> set (goal_handles impl)"
    and i: "rcl_action_goal_handle_get_info goal_handle = Inr tracked_info"
    and u: "uuidcmp (uuid tracked_info) (uuid goal_info)"
  shows "rcl_action_server_goal_exists action_server (Some goal_info) = Inr True \<and>
         rcl_action_accept_new_goal env action_server (Some goal_info) =
           Inr (Inl ''goal ID already exists'', action_server)"
  using goal_exists_tracked_uuid[OF v n a h i u] accept_rejects_existing[OF v]
  by simp

text \<open>
  Witness for C10: the tracked goal with the requested uuid is terminated (neither active
  nor cancelable), and the new goal is rejected all the same.
\<close>

theorem C10_duplicate_of_any_tracked_goal_witness:
  "\<not> rcl_action_goal_handle_is_active (goal_handle_of 2 5 300 False False) \<and>
   rcl_action_accept_new_goal
     \<lparr>table_reallocate = Reallocate_Moves, allocate_ok = True, clock_get_now = Inr 6000000000,
      goal_handle_init_ok = True\<rparr>
     (Some (server_impl_of 900000000000
              [goal_handle_of 1 0 100 True True, goal_handle_of 2 5 300 False False]))
     (Some \<lparr>uuid = replicate 16 2, stamp_sec = 0, stamp_nanosec = 0\<rparr>) =
     Inr (Inl ''goal ID already exists'',
          Some (server_impl_of 900000000000
                  [goal_handle_of 1 0 100 True True, goal_handle_of 2 5 300 False False]))"
proof -
  let ?impl = "server_impl_of 900000000000
              [goal_handle_of 1 0 100 True True, goal_handle_of 2 5 300 False False]"
  let ?gi = "\<lparr>uuid = replicate 16 2, stamp_sec = 0, stamp_nanosec = 0\<rparr>"
  let ?ti = "\<lparr>uuid = replicate 16 2, stamp_sec = 5, stamp_nanosec = 300\<rparr>"
  have v: "rcl_action_server_is_valid (Some ?impl) = Inr ?impl"
    by (rule server_impl_of_valid)
  have n: "num_goal_handles ?impl = length (goal_handles ?impl)"
    by (simp add: server_impl_of_def)
  have a: "\<forall>h \<in> set (goal_handles ?impl). h \<noteq> None"
    by (simp add: server_impl_of_def goal_handle_of_def)
  have h: "goal_handle_of 2 5 300 False False \<in> set (goal_handles ?impl)"
    by (simp add: server_impl_of_def)
  have i: "rcl_action_goal_handle_get_info (goal_handle_of 2 5 300 False False) = Inr ?ti"
    by (simp add: goal_handle_of_def rcl_action_goal_handle_get_info_def)
  have u: "uuidcmp (uuid ?ti) (uuid ?gi)" by (simp add: uuidcmp_def)
  have na: "\<not> rcl_action_goal_handle_is_active (goal_handle_of 2 5 300 False False)"
    by (simp add: goal_handle_of_def rcl_action_goal_handle_is_active_def)
  show ?thesis
    using na C10_duplicate_of_any_tracked_goal[OF v n a h i u] by simp
qed

section \<open>Expiration sweep\<close>





text \<open>
  C2: the sweep is to remove exactly the expired terminated goals by swap-remove (the
  last still-present entry moves into the vacated slot, the scan index stays, the length
  drops by one). The code instead copies \<open>goal_handles[num_goal_handles]\<close>, the slot
  one past the last entry, before it decrements the count. Five goals are tracked and
  the third one has terminated and expired: the sweep reads slot 5 of a block of five
  slots.
\<close>

theorem C2_sweep_reads_past_last_entry:
  "rcl_action_clear_expired_goals (Inr 901000000000) True
     (Some (server_impl_of 900000000000
              [goal_handle_of 1 0 100 True True, goal_handle_of 2 0 200 True True,
               goal_handle_of 3 0 300 False False, goal_handle_of 4 0 400 True True,
               goal_handle_of 5 0 500 True True]))
     (Some 0) = Inl OutOfBounds"
  by (simp add: rcl_action_clear_expired_goals_def rcl_action_server_is_valid_def
      clear_expired_loop.simps slot_def example_defs)

text \<open>
  C3: two sweeps at the same clock reading are to leave the second one with nothing to
  remove. One terminated goal is tracked and has expired: the first sweep already reads
  past the end of the block, so there is no state for the second sweep to start from.
\<close>

theorem C3_first_sweep_already_faults:
  "rcl_action_clear_expired_goals (Inr 1000) True
     (Some (server_impl_of 0 [goal_handle_of 1 0 100 False False])) (Some 0) = Inl OutOfBounds \<and>
   (case rcl_action_clear_expired_goals (Inr 1000) True
           (Some (server_impl_of 0 [goal_handle_of 1 0 100 False False])) (Some 0) of
      Inl ub \<Rightarrow> Inl ub
    | Inr (ret, count, action_server') \<Rightarrow>
        rcl_action_clear_expired_goals (Inr 1000) True action_server' count) = Inl OutOfBounds"
  by (simp add: rcl_action_clear_expired_goals_def rcl_action_server_is_valid_def
      clear_expired_loop.simps slot_def example_defs word_sless_alt)

section \<open>Out of memory in the cancel response\<close>

text \<open>
  C6: when \<open>rcl_action_cancel_response_init\<close> fails with \<open>RCL_RET_BAD_ALLOC\<close> the
  call is to return \<open>RCL_RET_BAD_ALLOC\<close>. One cancelable goal is tracked and the request
  is the wildcard: \<open>ret_final\<close> is set to \<open>RCL_RET_BAD_ALLOC\<close> and overwritten on the
  next line, and the call returns \<open>RCL_RET_ERROR\<close>.
\<close>

theorem C6_bad_alloc_reported_as_error:
  "rcl_action_process_cancel_request
     \<lparr>temporary_allocate_ok = True,
      cancel_response_init = (\<lambda>size. RCL_RET_BAD_ALLOC),
      update_goal_state_cancel = (\<lambda>goal_handle. (RCL_RET_OK, goal_handle))\<rparr>
     (Some (server_impl_of 900000000000 [goal_handle_of 1 0 100 True True]))
     (Some \<lparr>uuid = replicate 16 0, stamp_sec = 0, stamp_nanosec = 0\<rparr>)
     (Some []) = Inr (RCL_RET_ERROR, Some [], [])"
  by (simp add: rcl_action_process_cancel_request_def rcl_action_server_is_valid_def
      goal_handles_to_cancel_def cancel_goals_loop.simps slot_def example_defs INT64_MAX_def
      Let_def)

end
